theory Spec2Isabelle
  imports Complex_Main
begin

section \<open>Python values, exceptions and library functions\<close>

text \<open>
  The gateway of \<^verbatim>\<open>lambda_backend\<close> works on values decoded from JSON. A Python
  \<^verbatim>\<open>str\<close> is a \<open>string\<close> whose characters are the code points U+0000 to U+00FF;
  \<^verbatim>\<open>len\<close> counts characters and the UTF-8 encoding of a character above U+007F has
  two bytes. A \<^verbatim>\<open>dict\<close> with string keys is an association list in insertion order.
  A \<^verbatim>\<open>float\<close> is the rational it denotes, or one of the three non-finite values.
\<close>

datatype pyfloat = Finite rat | PosInf | NegInf | NaN

datatype pyval =
    PNone
  | PBool bool
  | PInt int
  | PFloat pyfloat
  | PStr string
  | PList "pyval list"
  | PDict "(string \<times> pyval) list"

datatype exn =
    TypeError
  | ValueError
  | AttributeError
  | KeyError
  | OverflowError
  | JSONDecodeError string
  | StoreError string

text \<open>
  Functions of the Python standard library that the code calls and that are not part of
  the repository are parameters of the model: \<^verbatim>\<open>json.loads\<close>, \<^verbatim>\<open>int\<close> on a
  \<^verbatim>\<open>str\<close> (\<open>None\<close> is \<^verbatim>\<open>ValueError\<close>) and the formatting of a float.
\<close>

record pylib =
  json_loads :: "string \<Rightarrow> exn + pyval"
  int_of_str :: "string \<Rightarrow> int option"
  float_repr :: "pyfloat \<Rightarrow> string"

subsection \<open>Strings\<close>

definition is_space :: "char \<Rightarrow> bool" where
  "is_space c =
     (let n = (of_char c :: nat)
      in (9 \<le> n \<and> n \<le> 13) \<or> (28 \<le> n \<and> n \<le> 32) \<or> n = 133 \<or> n = 160)"

definition py_strip :: "string \<Rightarrow> string" where
  "py_strip s = rev (dropWhile is_space (rev (dropWhile is_space s)))"





definition starts_with :: "string \<Rightarrow> string \<Rightarrow> bool" where
  "starts_with sub s = (take (length sub) s = sub)"

text \<open>\<^verbatim>\<open>sub in s\<close> on two strings.\<close>

fun py_in_str :: "string \<Rightarrow> string \<Rightarrow> bool" where
  "py_in_str sub [] = (sub = [])"
| "py_in_str sub (c # cs) = (starts_with sub (c # cs) \<or> py_in_str sub cs)"

text \<open>\<^verbatim>\<open>s.split(sep)\<close> with a one-character separator.\<close>

fun split_on :: "char \<Rightarrow> string \<Rightarrow> string list" where
  "split_on sep [] = [[]]"
| "split_on sep (c # cs) =
     (if c = sep then [] # split_on sep cs
      else (case split_on sep cs of [] \<Rightarrow> [[c]] | p # ps \<Rightarrow> (c # p) # ps))"

definition utf8_char :: "char \<Rightarrow> nat list" where
  "utf8_char c =
     (let n = (of_char c :: nat)
      in if n < 128 then [n] else [192 + n div 64, 128 + n mod 64])"

definition encode_utf8 :: "string \<Rightarrow> nat list" where
  "encode_utf8 s = concat (map utf8_char s)"

definition digit_char :: "nat \<Rightarrow> char" where
  "digit_char d = char_of (48 + d)"

function str_nat :: "nat \<Rightarrow> string" where
  "str_nat n = (if n < 10 then [digit_char n] else str_nat (n div 10) @ [digit_char (n mod 10)])"
  by pat_completeness auto
termination
  by (relation "measure id") auto

declare str_nat.simps [simp del]

definition str_int :: "int \<Rightarrow> string" where
  "str_int i = (if i < 0 then CHR ''-'' # str_nat (nat (- i)) else str_nat (nat i))"

subsection \<open>Operations on values\<close>

text \<open>Truth value of an object, as \<^verbatim>\<open>if x\<close>, \<^verbatim>\<open>not x\<close> and \<^verbatim>\<open>x or y\<close> test it.\<close>

fun py_truthy :: "pyval \<Rightarrow> bool" where
  "py_truthy PNone = False"
| "py_truthy (PBool b) = b"
| "py_truthy (PInt n) = (n \<noteq> 0)"
| "py_truthy (PFloat (Finite r)) = (r \<noteq> 0)"
| "py_truthy (PFloat _) = True"
| "py_truthy (PStr s) = (s \<noteq> [])"
| "py_truthy (PList xs) = (xs \<noteq> [])"
| "py_truthy (PDict kvs) = (kvs \<noteq> [])"

text \<open>\<^verbatim>\<open>key in x\<close> for a string key: membership, element or substring; other
  objects are not iterable.\<close>

fun py_contains :: "string \<Rightarrow> pyval \<Rightarrow> exn + bool" where
  "py_contains key (PDict kvs) = Inr (map_of kvs key \<noteq> None)"
| "py_contains key (PList xs) = Inr (PStr key \<in> set xs)"
| "py_contains key (PStr s) = Inr (py_in_str key s)"
| "py_contains key _ = Inl TypeError"

text \<open>\<^verbatim>\<open>x[key]\<close> for a string key.\<close>

fun py_getitem :: "pyval \<Rightarrow> string \<Rightarrow> exn + pyval" where
  "py_getitem (PDict kvs) key = (case map_of kvs key of None \<Rightarrow> Inl KeyError | Some v \<Rightarrow> Inr v)"
| "py_getitem _ key = Inl TypeError"

text \<open>\<^verbatim>\<open>x.get(key, default)\<close>: only a dict has the method.\<close>

fun py_get :: "pyval \<Rightarrow> string \<Rightarrow> pyval \<Rightarrow> exn + pyval" where
  "py_get (PDict kvs) key dflt = (case map_of kvs key of None \<Rightarrow> Inr dflt | Some v \<Rightarrow> Inr v)"
| "py_get _ key dflt = Inl AttributeError"

fun py_len :: "pyval \<Rightarrow> exn + nat" where
  "py_len (PDict kvs) = Inr (length kvs)"
| "py_len (PList xs) = Inr (length xs)"
| "py_len (PStr s) = Inr (length s)"
| "py_len _ = Inl TypeError"

definition trunc_rat :: "rat \<Rightarrow> int" where
  "trunc_rat r = (if 0 \<le> r then \<lfloor>r\<rfloor> else - \<lfloor>- r\<rfloor>)"

text \<open>\<^verbatim>\<open>int(x)\<close>.\<close>

fun py_int :: "pylib \<Rightarrow> pyval \<Rightarrow> exn + int" where
  "py_int lib (PInt n) = Inr n"
| "py_int lib (PBool b) = Inr (if b then 1 else 0)"
| "py_int lib (PFloat (Finite r)) = Inr (trunc_rat r)"
| "py_int lib (PFloat NaN) = Inl ValueError"
| "py_int lib (PFloat _) = Inl OverflowError"
| "py_int lib (PStr s) = (case int_of_str lib s of None \<Rightarrow> Inl ValueError | Some n \<Rightarrow> Inr n)"
| "py_int lib _ = Inl TypeError"

text \<open>The text an f-string inserts for a hashable value.\<close>

fun py_format :: "pylib \<Rightarrow> pyval \<Rightarrow> string" where
  "py_format lib PNone = ''None''"
| "py_format lib (PBool b) = (if b then ''True'' else ''False'')"
| "py_format lib (PInt n) = str_int n"
| "py_format lib (PFloat f) = float_repr lib f"
| "py_format lib (PStr s) = s"
| "py_format lib _ = []"

text \<open>\<^verbatim>\<open>{**a, **b}\<close>: the keys of \<open>a\<close> in order, with the values of \<open>b\<close> where it
  has the key, then the other keys of \<open>b\<close>.\<close>

definition dict_merge :: "(string \<times> pyval) list \<Rightarrow> (string \<times> pyval) list \<Rightarrow> (string \<times> pyval) list" where
  "dict_merge a b =
     map (\<lambda>kv. (fst kv, case map_of b (fst kv) of None \<Rightarrow> snd kv | Some v \<Rightarrow> v)) a
     @ filter (\<lambda>kv. map_of a (fst kv) = None) b"

section \<open>config.py\<close>

record config =
  DB_HOST :: string
  DB_NAME :: string
  DB_USER :: string
  DB_PASSWORD :: string
  API_KEYS_STR :: string
  MAX_PAYLOAD_SIZE :: int
  MAX_QUERY_LIMIT :: int

definition get_api_keys :: "config \<Rightarrow> string list" where
  "get_api_keys cfg =
     (if API_KEYS_STR cfg = [] then []
      else filter (\<lambda>key. key \<noteq> []) (map py_strip (split_on CHR '','' (API_KEYS_STR cfg))))"

definition missing_config :: "config \<Rightarrow> string list" where
  "missing_config cfg =
     (if DB_HOST cfg = [] then [''DB_HOST''] else [])
     @ (if DB_NAME cfg = [] then [''DB_NAME''] else [])
     @ (if DB_USER cfg = [] then [''DB_USER''] else [])
     @ (if DB_PASSWORD cfg = [] then [''DB_PASSWORD''] else [])
     @ (if get_api_keys cfg = [] then [''API_KEYS''] else [])"

definition Config_validate :: "config \<Rightarrow> exn + unit" where
  "Config_validate cfg = (if missing_config cfg \<noteq> [] then Inl ValueError else Inr ())"

section \<open>logger.py\<close>






section \<open>auth.py\<close>

text \<open>\<^verbatim>\<open>hmac.compare_digest\<close> on two byte strings returns whether they are equal.\<close>

definition compare_digest :: "nat list \<Rightarrow> nat list \<Rightarrow> bool" where
  "compare_digest x y = (x = y)"

definition constant_time_compare :: "string \<Rightarrow> string \<Rightarrow> bool" where
  "constant_time_compare a b =
     (if length a \<noteq> length b then False
      else compare_digest (encode_utf8 a) (encode_utf8 b))"

text \<open>
  What the authenticator does besides returning: it reads the configured credential
  set (\<^verbatim>\<open>Config.get_api_keys()\<close>) and writes log lines (level, message).
\<close>

datatype effect = ReadApiKeys | LogLine string string

text \<open>The loop over the configured keys, returning at the first match.\<close>

fun match_any_key :: "string \<Rightarrow> string list \<Rightarrow> bool" where
  "match_any_key api_key [] = False"
| "match_any_key api_key (valid_key # valid_keys) =
     (if constant_time_compare api_key valid_key then True
      else match_any_key api_key valid_keys)"

definition validate_api_key :: "config \<Rightarrow> string option \<Rightarrow> bool \<times> effect list" where
  "validate_api_key cfg api_key =
     (case api_key of
        None \<Rightarrow> (False, [LogLine ''warning'' ''API request missing x-api-key header''])
      | Some k \<Rightarrow>
          if k = [] then (False, [LogLine ''warning'' ''API request missing x-api-key header''])
          else
            (let valid_keys = get_api_keys cfg
             in if valid_keys = []
                then (False, [ReadApiKeys, LogLine ''error'' ''No API keys configured in environment''])
                else if match_any_key k valid_keys
                then (True, [ReadApiKeys, LogLine ''debug'' ''API key validated successfully''])
                else (False, [ReadApiKeys, LogLine ''warning'' ''Invalid API key provided''])))"

text \<open>\<^verbatim>\<open>a or b\<close> on two results of \<^verbatim>\<open>headers.get\<close>.\<close>

definition or_else :: "string option \<Rightarrow> string option \<Rightarrow> string option" where
  "or_else a b = (case a of None \<Rightarrow> b | Some v \<Rightarrow> if v \<noteq> [] then Some v else b)"

definition extract_api_key :: "(string \<rightharpoonup> string) \<Rightarrow> string option" where
  "extract_api_key headers =
     (case or_else (headers ''x-api-key'') (headers ''X-Api-Key'') of
        None \<Rightarrow> None
      | Some api_key \<Rightarrow> if api_key \<noteq> [] then Some (py_strip api_key) else None)"

definition authenticate_request :: "config \<Rightarrow> (string \<rightharpoonup> string) \<Rightarrow> (bool \<times> string option) \<times> effect list" where
  "authenticate_request cfg headers =
     (let api_key = extract_api_key headers;
          r = validate_api_key cfg api_key
      in if \<not> fst r then ((False, Some ''Unauthorized: Invalid or missing API key''), snd r)
         else ((True, None), snd r))"

section \<open>validators.py\<close>

definition ALLOWED_INTENTS :: "string list" where
  "ALLOWED_INTENTS =
     [''get_access_logs'', ''get_error_logs'', ''store_access_log'', ''store_error_log'',
      ''get_traffic_summary'', ''get_security_threats'', ''get_performance_metrics'',
      ''get_anomalies'', ''query_logs'']"

text \<open>The text of \<^verbatim>\<open>sorted(ALLOWED_INTENTS)\<close> inside an f-string.\<close>

definition quote_str :: "string \<Rightarrow> string" where
  "quote_str s = [char_of (39 :: nat)] @ s @ [char_of (39 :: nat)]"

fun join_comma :: "string list \<Rightarrow> string" where
  "join_comma [] = []"
| "join_comma [x] = x"
| "join_comma (x # y # ys) = x @ '', '' @ join_comma (y # ys)"

definition sorted_allowed_repr :: string where
  "sorted_allowed_repr =
     ''['' @ join_comma (map quote_str
       [''get_access_logs'', ''get_anomalies'', ''get_error_logs'', ''get_performance_metrics'',
        ''get_security_threats'', ''get_traffic_summary'', ''query_logs'', ''store_access_log'',
        ''store_error_log'']) @ '']''"

definition validate_intent :: "pylib \<Rightarrow> pyval \<Rightarrow> exn + (bool \<times> string option)" where
  "validate_intent lib intent =
     (if \<not> py_truthy intent then Inr (False, Some ''Intent is required'')
      else (case intent of
              PList xs \<Rightarrow> Inl TypeError
            | PDict kvs \<Rightarrow> Inl TypeError
            | PStr s \<Rightarrow>
                if s \<notin> set ALLOWED_INTENTS
                then Inr (False, Some (''Unknown intent: '' @ s @ ''. Allowed intents: '' @ sorted_allowed_repr))
                else Inr (True, None)
            | _ \<Rightarrow>
                Inr (False, Some (''Unknown intent: '' @ py_format lib intent
                                   @ ''. Allowed intents: '' @ sorted_allowed_repr))))"

definition validate_payload_size :: "config \<Rightarrow> string \<Rightarrow> bool \<times> string option" where
  "validate_payload_size cfg body =
     (let size = int (length (encode_utf8 body));
          max_size = MAX_PAYLOAD_SIZE cfg
      in if size > max_size
         then (False, Some (''Payload too large: '' @ str_int size @ '' bytes (max: ''
                             @ str_int max_size @ '' bytes)''))
         else (True, None))"

definition validate_json :: "pylib \<Rightarrow> string \<Rightarrow> exn + (bool \<times> pyval \<times> string option)" where
  "validate_json lib body =
     (case json_loads lib body of
        Inr data \<Rightarrow> Inr (True, data, None)
      | Inl e \<Rightarrow>
          (case e of
             JSONDecodeError msg \<Rightarrow> Inr (False, PNone, Some (''Invalid JSON: '' @ msg))
           | _ \<Rightarrow> Inl e))"

definition validate_limit :: "pylib \<Rightarrow> config \<Rightarrow> pyval \<Rightarrow> exn + (bool \<times> int option \<times> string option)" where
  "validate_limit lib cfg limit =
     (if limit = PNone then Inr (True, Some 100, None)
      else (case py_int lib limit of
              Inr limit_int \<Rightarrow>
                (let max_limit = MAX_QUERY_LIMIT cfg
                 in if limit_int < 1 then Inr (False, None, Some ''Limit must be positive'')
                    else if limit_int > max_limit
                    then Inr (False, None, Some (''Limit exceeds maximum: '' @ str_int max_limit))
                    else Inr (True, Some limit_int, None))
            | Inl e \<Rightarrow>
                if e = ValueError \<or> e = TypeError
                then Inr (False, None, Some ''Limit must be an integer'')
                else Inl e))"

definition validate_timestamp :: "pyval \<Rightarrow> bool \<times> string option \<times> string option" where
  "validate_timestamp timestamp =
     (if timestamp = PNone then (True, None, None)
      else (case timestamp of
              PStr s \<Rightarrow>
                if length s < 10 then (False, None, Some ''Invalid timestamp format'')
                else (True, Some s, None)
            | _ \<Rightarrow> (False, None, Some ''Timestamp must be a string'')))"

text \<open>The loop over the four parts of an address; \<open>None\<close> when every part passes.\<close>

fun check_ip_parts :: "pylib \<Rightarrow> string list \<Rightarrow> string option" where
  "check_ip_parts lib [] = None"
| "check_ip_parts lib (part # parts) =
     (case int_of_str lib part of
        None \<Rightarrow> Some ''IP address must contain numbers''
      | Some num \<Rightarrow>
          if \<not> (0 \<le> num \<and> num \<le> 255) then Some ''Invalid IP address range''
          else check_ip_parts lib parts)"

definition validate_ip_address :: "pylib \<Rightarrow> pyval \<Rightarrow> bool \<times> string option \<times> string option" where
  "validate_ip_address lib ip =
     (if ip = PNone then (True, None, None)
      else (case ip of
              PStr s \<Rightarrow>
                (let parts = split_on CHR ''.'' s
                 in if length parts \<noteq> 4 then (False, None, Some ''Invalid IP address format'')
                    else (case check_ip_parts lib parts of
                            Some err \<Rightarrow> (False, None, Some err)
                          | None \<Rightarrow> (True, Some s, None)))
            | _ \<Rightarrow> (False, None, Some ''IP address must be a string'')))"

definition validate_status_code :: "pylib \<Rightarrow> pyval \<Rightarrow> exn + (bool \<times> int option \<times> string option)" where
  "validate_status_code lib status_code =
     (if status_code = PNone then Inr (True, None, None)
      else (case py_int lib status_code of
              Inr code \<Rightarrow>
                if \<not> (100 \<le> code \<and> code \<le> 599)
                then Inr (False, None, Some ''Status code must be between 100 and 599'')
                else Inr (True, Some code, None)
            | Inl e \<Rightarrow>
                if e = ValueError \<or> e = TypeError
                then Inr (False, None, Some ''Status code must be an integer'')
                else Inl e))"

text \<open>
  One step of \<^verbatim>\<open>validate_intent_params\<close>: an exception, an early
  \<^verbatim>\<open>return False, error\<close> (\<open>Some\<close>), or falling through to the next statement
  (\<open>None\<close>).
\<close>

type_synonym step = "exn + (bool \<times> string option) option"

text \<open>\<^verbatim>\<open>is_valid, _, error = validator(params[key]); if not is_valid: return False, error\<close>\<close>

definition check_field :: "string \<Rightarrow> (pyval \<Rightarrow> exn + (bool \<times> 'a \<times> string option)) \<Rightarrow> pyval \<Rightarrow> step" where
  "check_field key validator params =
     (case py_getitem params key of
        Inl e \<Rightarrow> Inl e
      | Inr v \<Rightarrow>
          (case validator v of
             Inl e \<Rightarrow> Inl e
           | Inr r \<Rightarrow> if \<not> fst r then Inr (Some (False, snd (snd r))) else Inr None))"

text \<open>\<^verbatim>\<open>if key in params:\<close> around the same statements.\<close>

definition check_optional :: "string \<Rightarrow> (pyval \<Rightarrow> exn + (bool \<times> 'a \<times> string option)) \<Rightarrow> pyval \<Rightarrow> step" where
  "check_optional key validator params =
     (case py_contains key params of
        Inl e \<Rightarrow> Inl e
      | Inr present \<Rightarrow> if present then check_field key validator params else Inr None)"

text \<open>\<^verbatim>\<open>for field in required: if field not in params: return False, ...\<close>\<close>

fun check_required :: "string list \<Rightarrow> pyval \<Rightarrow> step" where
  "check_required [] params = Inr None"
| "check_required (field # required) params =
     (case py_contains field params of
        Inl e \<Rightarrow> Inl e
      | Inr present \<Rightarrow>
          if \<not> present then Inr (Some (False, Some (''Missing required field: '' @ field)))
          else check_required required params)"

text \<open>Statements in sequence, ending with \<^verbatim>\<open>return True, None\<close>.\<close>

fun run_steps :: "step list \<Rightarrow> exn + (bool \<times> string option)" where
  "run_steps [] = Inr (True, None)"
| "run_steps (s # ss) =
     (case s of
        Inl e \<Rightarrow> Inl e
      | Inr (Some r) \<Rightarrow> Inr r
      | Inr None \<Rightarrow> run_steps ss)"

definition timestamp_validator :: "pyval \<Rightarrow> exn + (bool \<times> string option \<times> string option)" where
  "timestamp_validator v = Inr (validate_timestamp v)"

definition ip_validator :: "pylib \<Rightarrow> pyval \<Rightarrow> exn + (bool \<times> string option \<times> string option)" where
  "ip_validator lib v = Inr (validate_ip_address lib v)"

definition intent_steps :: "pylib \<Rightarrow> pyval \<Rightarrow> pyval \<Rightarrow> step list" where
  "intent_steps lib intent params =
     (if intent = PStr ''get_access_logs'' then
        [check_optional ''ip_address'' (ip_validator lib) params,
         check_optional ''status_code'' (validate_status_code lib) params,
         check_optional ''start_time'' timestamp_validator params,
         check_optional ''end_time'' timestamp_validator params]
      else if intent = PStr ''store_access_log'' then
        [check_required [''timestamp'', ''ip_address'', ''method'', ''endpoint'', ''status_code''] params,
         check_field ''timestamp'' timestamp_validator params,
         check_field ''ip_address'' (ip_validator lib) params,
         check_field ''status_code'' (validate_status_code lib) params]
      else if intent = PStr ''store_error_log'' then
        [check_required [''timestamp'', ''log_level'', ''error_code'', ''error_message''] params,
         check_field ''timestamp'' timestamp_validator params]
      else if intent = PStr ''get_traffic_summary'' then
        [check_optional ''start_time'' timestamp_validator params,
         check_optional ''end_time'' timestamp_validator params]
      else [])"

definition validate_intent_params :: "pylib \<Rightarrow> config \<Rightarrow> pyval \<Rightarrow> pyval \<Rightarrow> exn + (bool \<times> string option)" where
  "validate_intent_params lib cfg intent params =
     run_steps (check_optional ''limit'' (validate_limit lib cfg) params
                # intent_steps lib intent params)"

text \<open>\<^verbatim>\<open>validate_request(body, intent=None)\<close>; the gateway never passes \<open>intent\<close>.\<close>

definition validate_request :: "pylib \<Rightarrow> config \<Rightarrow> string \<Rightarrow> exn + (bool \<times> pyval \<times> string option)" where
  "validate_request lib cfg body =
     (let r1 = validate_payload_size cfg body
      in if \<not> fst r1 then Inr (False, PNone, snd r1)
         else (case validate_json lib body of
                 Inl e \<Rightarrow> Inl e
               | Inr r2 \<Rightarrow>
                   if \<not> fst r2 then Inr (False, PNone, snd (snd r2))
                   else (let data = fst (snd r2)
                         in case py_get data ''intent'' PNone of
                              Inl e \<Rightarrow> Inl e
                            | Inr intent_to_check \<Rightarrow>
                                (case validate_intent lib intent_to_check of
                                   Inl e \<Rightarrow> Inl e
                                 | Inr r3 \<Rightarrow>
                                     if \<not> fst r3 then Inr (False, PNone, snd r3)
                                     else (case py_get data ''params'' (PDict []) of
                                             Inl e \<Rightarrow> Inl e
                                           | Inr params \<Rightarrow>
                                               (case validate_intent_params lib cfg intent_to_check params of
                                                  Inl e \<Rightarrow> Inl e
                                                | Inr r4 \<Rightarrow>
                                                    if \<not> fst r4 then Inr (False, PNone, snd r4)
                                                    else Inr (True, data, None)))))))"

section \<open>intents.py\<close>

text \<open>
  The data store behind \<^verbatim>\<open>get_db_client()\<close>: \<open>execute_insert\<close> returns the new row
  id or raises. The six query handlers run SQL and shape the rows; each catches every
  exception and returns a result dict, which is what \<open>query_handler\<close> gives for them.
\<close>

datatype handler =
    H_get_access_logs
  | H_get_error_logs
  | H_store_access_log
  | H_store_error_log
  | H_get_traffic_summary
  | H_get_security_threats
  | H_get_performance_metrics
  | H_get_anomalies

record backend =
  execute_insert :: "string \<Rightarrow> pyval list \<Rightarrow> exn + int"
  query_handler :: "handler \<Rightarrow> pyval \<Rightarrow> (string \<times> pyval) list"

text \<open>The elements of a tuple expression, evaluated left to right.\<close>

fun collect :: "(exn + 'a) list \<Rightarrow> exn + 'a list" where
  "collect [] = Inr []"
| "collect (x # xs) =
     (case x of
        Inl e \<Rightarrow> Inl e
      | Inr v \<Rightarrow> (case collect xs of Inl e \<Rightarrow> Inl e | Inr vs \<Rightarrow> Inr (v # vs)))"

text \<open>The statement texts, with the line breaks of the source written as single spaces.\<close>

definition access_log_insert :: string where
  "access_log_insert =
     ''INSERT INTO access_logs ( timestamp, ip_address, method, endpoint, http_version, ''
     @ ''status_code, response_size, response_time_ms, user_agent, department, user_id ''
     @ '') VALUES (%s, %s, %s, %s, %s, %s, %s, %s, %s, %s, %s)''"

definition error_log_insert :: string where
  "error_log_insert =
     ''INSERT INTO error_logs ( timestamp, log_level, process_id, thread_id, client_ip, ''
     @ ''error_code, error_message, file_path, line_number, severity_score ''
     @ '') VALUES (%s, %s, %s, %s, %s, %s, %s, %s, %s, %s)''"

definition access_log_query_params :: "pyval \<Rightarrow> exn + pyval list" where
  "access_log_query_params params =
     collect
       [py_getitem params ''timestamp'',
        py_getitem params ''ip_address'',
        py_getitem params ''method'',
        py_getitem params ''endpoint'',
        py_get params ''http_version'' PNone,
        py_getitem params ''status_code'',
        py_get params ''response_size'' PNone,
        py_get params ''response_time_ms'' PNone,
        py_get params ''user_agent'' PNone,
        py_get params ''department'' PNone,
        py_get params ''user_id'' PNone]"

definition handle_store_access_log :: "backend \<Rightarrow> pyval \<Rightarrow> (string \<times> pyval) list" where
  "handle_store_access_log be params =
     (case access_log_query_params params of
        Inl e \<Rightarrow> [(''success'', PBool False), (''error'', PStr ''Failed to store access log'')]
      | Inr query_params \<Rightarrow>
          (case execute_insert be access_log_insert query_params of
             Inl e \<Rightarrow> [(''success'', PBool False), (''error'', PStr ''Failed to store access log'')]
           | Inr log_id \<Rightarrow>
               [(''success'', PBool True),
                (''data'', PDict [(''id'', PInt log_id),
                                  (''message'', PStr ''Access log stored successfully'')])]))"

definition error_log_query_params :: "pyval \<Rightarrow> exn + pyval list" where
  "error_log_query_params params =
     collect
       [py_getitem params ''timestamp'',
        py_getitem params ''log_level'',
        py_get params ''process_id'' PNone,
        py_get params ''thread_id'' PNone,
        py_get params ''client_ip'' PNone,
        py_getitem params ''error_code'',
        py_getitem params ''error_message'',
        py_get params ''file_path'' PNone,
        py_get params ''line_number'' PNone,
        py_get params ''severity_score'' (PInt 5)]"

definition handle_store_error_log :: "backend \<Rightarrow> pyval \<Rightarrow> (string \<times> pyval) list" where
  "handle_store_error_log be params =
     (case error_log_query_params params of
        Inl e \<Rightarrow> [(''success'', PBool False), (''error'', PStr ''Failed to store error log'')]
      | Inr query_params \<Rightarrow>
          (case execute_insert be error_log_insert query_params of
             Inl e \<Rightarrow> [(''success'', PBool False), (''error'', PStr ''Failed to store error log'')]
           | Inr log_id \<Rightarrow>
               [(''success'', PBool True),
                (''data'', PDict [(''id'', PInt log_id),
                                  (''message'', PStr ''Error log stored successfully'')])]))"

definition INTENT_HANDLERS :: "(string \<times> handler) list" where
  "INTENT_HANDLERS =
     [(''get_access_logs'', H_get_access_logs),
      (''get_error_logs'', H_get_error_logs),
      (''store_access_log'', H_store_access_log),
      (''store_error_log'', H_store_error_log),
      (''get_traffic_summary'', H_get_traffic_summary),
      (''get_security_threats'', H_get_security_threats),
      (''get_performance_metrics'', H_get_performance_metrics),
      (''get_anomalies'', H_get_anomalies)]"

definition call_handler :: "backend \<Rightarrow> handler \<Rightarrow> pyval \<Rightarrow> (string \<times> pyval) list" where
  "call_handler be h params =
     (if h = H_store_access_log then handle_store_access_log be params
      else if h = H_store_error_log then handle_store_error_log be params
      else query_handler be h params)"

text \<open>\<^verbatim>\<open>INTENT_HANDLERS.get(intent)\<close>: a list or a dict is not hashable; any other
  value that is not one of the eight names gives \<^verbatim>\<open>None\<close>.\<close>

definition lookup_handler :: "pyval \<Rightarrow> exn + handler option" where
  "lookup_handler intent =
     (case intent of
        PStr s \<Rightarrow> Inr (map_of INTENT_HANDLERS s)
      | PList xs \<Rightarrow> Inl TypeError
      | PDict kvs \<Rightarrow> Inl TypeError
      | _ \<Rightarrow> Inr None)"

definition execute_intent :: "pylib \<Rightarrow> backend \<Rightarrow> pyval \<Rightarrow> pyval \<Rightarrow> exn + (string \<times> pyval) list" where
  "execute_intent lib be intent params =
     (case lookup_handler intent of
        Inl e \<Rightarrow> Inl e
      | Inr None \<Rightarrow>
          Inr [(''success'', PBool False),
               (''error'', PStr (''No handler for intent: '' @ py_format lib intent))]
      | Inr (Some h) \<Rightarrow> Inr (call_handler be h params))"

section \<open>lambda\_function.py\<close>

text \<open>
  An API Gateway proxy event: each of the three keys the handler reads is missing, holds
  \<^verbatim>\<open>None\<close>, or holds a value; header names and values are strings. The response is
  the dict \<^verbatim>\<open>create_response\<close> builds, with the body as given to \<^verbatim>\<open>json.dumps\<close>.
  The log calls and the caller address, which only feeds them, do not reach the response;
  in a proxy event \<^verbatim>\<open>requestContext\<close> and \<^verbatim>\<open>identity\<close> are dicts when present, so
  computing the address raises nothing.
\<close>

datatype 'a entry = Absent | Null | Val 'a

record event =
  ev_headers :: "(string \<rightharpoonup> string) entry"
  ev_body :: "string entry"
  ev_httpMethod :: "string entry"

record response =
  statusCode :: int
  resp_headers :: "(string \<times> string) list"
  resp_body :: "(string \<times> pyval) list"

definition create_response :: "int \<Rightarrow> (string \<times> pyval) list \<Rightarrow> response" where
  "create_response status_code body =
     \<lparr> statusCode = status_code,
       resp_headers =
         [(''Content-Type'', ''application/json''),
          (''X-Content-Type-Options'', ''nosniff''),
          (''X-Frame-Options'', ''DENY''),
          (''X-XSS-Protection'', ''1; mode=block''),
          (''Strict-Transport-Security'', ''max-age=31536000; includeSubDomains'')],
       resp_body = body \<rparr>"

definition internal_error :: "string \<Rightarrow> response" where
  "internal_error request_id =
     create_response 500
       [(''error'', PStr ''Internal server error''), (''request_id'', PStr request_id)]"

text \<open>\<^verbatim>\<open>result.get('success', False)\<close> as a truth value.\<close>

definition result_success :: "(string \<times> pyval) list \<Rightarrow> bool" where
  "result_success result =
     (case map_of result ''success'' of None \<Rightarrow> False | Some v \<Rightarrow> py_truthy v)"

text \<open>Steps 3 and 4 of the handler, inside the outer \<^verbatim>\<open>try\<close>.\<close>

definition dispatch :: "pylib \<Rightarrow> backend \<Rightarrow> string \<Rightarrow> pyval \<Rightarrow> exn + response" where
  "dispatch lib be request_id data =
     (case py_get data ''intent'' PNone of
        Inl e \<Rightarrow> Inl e
      | Inr intent \<Rightarrow>
          (case py_get data ''params'' (PDict []) of
             Inl e \<Rightarrow> Inl e
           | Inr params \<Rightarrow>
               (case py_len params of
                  Inl e \<Rightarrow> Inl e
                | Inr params_count \<Rightarrow>
                    (case execute_intent lib be intent params of
                       Inl e \<Rightarrow> Inr (internal_error request_id)
                     | Inr result \<Rightarrow>
                         (let status_code = (if result_success result then 200 else 500)
                          in Inr (create_response status_code
                                    (dict_merge [(''request_id'', PStr request_id)] result)))))))"

definition validated_flow :: "pylib \<Rightarrow> config \<Rightarrow> backend \<Rightarrow> string \<Rightarrow> string \<Rightarrow> exn + response" where
  "validated_flow lib cfg be request_id body_str =
     (case validate_request lib cfg body_str of
        Inl e \<Rightarrow> Inl e
      | Inr r \<Rightarrow>
          if \<not> fst r
          then Inr (create_response 400
                 [(''error'', (case snd (snd r) of None \<Rightarrow> PNone | Some m \<Rightarrow> PStr m)),
                  (''request_id'', PStr request_id)])
          else dispatch lib be request_id (fst (snd r)))"

text \<open>The three request components the handler extracts from the event.\<close>

definition request_headers :: "event \<Rightarrow> (string \<rightharpoonup> string)" where
  "request_headers ev = (case ev_headers ev of Val h \<Rightarrow> h | _ \<Rightarrow> Map.empty)"

definition request_body :: "event \<Rightarrow> string" where
  "request_body ev = (case ev_body ev of Val b \<Rightarrow> if b \<noteq> [] then b else ''{}'' | _ \<Rightarrow> ''{}'')"

definition request_method :: "event \<Rightarrow> string option" where
  "request_method ev =
     (case ev_httpMethod ev of Absent \<Rightarrow> Some ''POST'' | Null \<Rightarrow> None | Val m \<Rightarrow> Some m)"

definition lambda_handler :: "pylib \<Rightarrow> config \<Rightarrow> backend \<Rightarrow> string \<Rightarrow> event \<Rightarrow> response" where
  "lambda_handler lib cfg be request_id ev =
     (case Config_validate cfg of
        Inl e \<Rightarrow>
          create_response 500
            [(''error'', PStr ''Server configuration error''), (''request_id'', PStr request_id)]
      | Inr ok \<Rightarrow>
          (let hdrs = request_headers ev;
               body_str = request_body ev;
               http_method = request_method ev;
               auth = fst (authenticate_request cfg hdrs)
           in if \<not> fst auth
              then create_response 401
                     [(''error'', (case snd auth of None \<Rightarrow> PNone | Some m \<Rightarrow> PStr m)),
                      (''request_id'', PStr request_id)]
              else if http_method \<noteq> Some ''POST''
              then create_response 405
                     [(''error'', PStr ''Method not allowed. Use POST.''),
                      (''request_id'', PStr request_id)]
              else (case validated_flow lib cfg be request_id body_str of
                      Inl e \<Rightarrow> internal_error request_id
                    | Inr resp \<Rightarrow> resp)))"

section \<open>Paths into a value\<close>



text \<open>The value bound for a field of a dict, with the default used when it is missing.\<close>

definition field_or :: "(string \<times> pyval) list \<Rightarrow> string \<Rightarrow> pyval \<Rightarrow> pyval" where
  "field_or kvs key dflt = (case map_of kvs key of None \<Rightarrow> dflt | Some v \<Rightarrow> v)"

section \<open>A concrete environment\<close>

text \<open>
  An instance of the parameters, for evaluating the gateway on concrete calls: a
  \<^verbatim>\<open>json.loads\<close> that knows the texts of a table and rejects every other text, an
  \<^verbatim>\<open>int\<close> that reads a text of decimal digits and rejects every other text, a
  complete configuration with two keys, and a data store that accepts every insert.
\<close>

definition table_loads :: "(string \<times> pyval) list \<Rightarrow> string \<Rightarrow> exn + pyval" where
  "table_loads table s =
     (case map_of table s of
        None \<Rightarrow> Inl (JSONDecodeError ''Expecting value: line 1 column 1 (char 0)'')
      | Some v \<Rightarrow> Inr v)"

definition digits_value :: "string \<Rightarrow> int option" where
  "digits_value s =
     (if s \<noteq> [] \<and> list_all (\<lambda>c. 48 \<le> (of_char c :: nat) \<and> (of_char c :: nat) \<le> 57) s
      then Some (foldl (\<lambda>a c. 10 * a + (int (of_char c) - 48)) 0 s)
      else None)"

definition example_lib :: "(string \<times> pyval) list \<Rightarrow> pylib" where
  "example_lib table =
     \<lparr> json_loads = table_loads table, int_of_str = digits_value,
       float_repr = (\<lambda>f. ''nan'') \<rparr>"

definition example_cfg :: config where
  "example_cfg =
     \<lparr> DB_HOST = ''db.internal'', DB_NAME = ''logs'', DB_USER = ''app'', DB_PASSWORD = ''pw'',
       API_KEYS_STR = ''alpha, beta'', MAX_PAYLOAD_SIZE = 1048576, MAX_QUERY_LIMIT = 1000 \<rparr>"

definition example_backend :: backend where
  "example_backend =
     \<lparr> execute_insert = (\<lambda>q ps. Inr 7),
       query_handler = (\<lambda>h params. [(''success'', PBool True), (''data'', PDict [])]) \<rparr>"

definition example_event :: "(string \<rightharpoonup> string) \<Rightarrow> string entry \<Rightarrow> string \<Rightarrow> event" where
  "example_event hdrs b m = \<lparr> ev_headers = Val hdrs, ev_body = b, ev_httpMethod = Val m \<rparr>"

text \<open>Whether the authenticator accepts the headers of an event.\<close>

definition authenticated :: "config \<Rightarrow> event \<Rightarrow> bool" where
  "authenticated cfg ev = fst (fst (authenticate_request cfg (request_headers ev)))"

text \<open>A step that returns early only with a rejection.\<close>

definition rejecting :: "step \<Rightarrow> bool" where
  "rejecting s = (\<forall>r. s = Inr (Some r) \<longrightarrow> \<not> fst r)"

section \<open>Properties of the gateway\<close>

lemma Config_validate_cases: "Config_validate cfg = Inl ValueError \<or> Config_validate cfg = Inr ()"
  by (simp add: Config_validate_def)

lemma statusCode_create_response [simp]: "statusCode (create_response c b) = c"
  by (simp add: create_response_def)

lemma resp_body_create_response [simp]: "resp_body (create_response c b) = b"
  by (simp add: create_response_def)

lemma authenticate_request_error:
  "\<not> fst (fst (authenticate_request cfg hdrs)) \<Longrightarrow>
   fst (authenticate_request cfg hdrs) = (False, Some ''Unauthorized: Invalid or missing API key'')"
  by (simp add: authenticate_request_def Let_def split: if_splits)

lemma lambda_handler_config_invalid:
  assumes "Config_validate cfg \<noteq> Inr ()"
  shows "lambda_handler lib cfg be rid ev =
         create_response 500
           [(''error'', PStr ''Server configuration error''), (''request_id'', PStr rid)]"
  using assms Config_validate_cases [of cfg] by (auto simp: lambda_handler_def)

lemma lambda_handler_unauthenticated:
  assumes "Config_validate cfg = Inr ()" and "\<not> authenticated cfg ev"
  shows "lambda_handler lib cfg be rid ev =
         create_response 401
           [(''error'', PStr ''Unauthorized: Invalid or missing API key''),
            (''request_id'', PStr rid)]"
proof -
  from assms(2) have a: "\<not> fst (fst (authenticate_request cfg (request_headers ev)))"
    by (simp add: authenticated_def)
  have b: "snd (fst (authenticate_request cfg (request_headers ev)))
           = Some ''Unauthorized: Invalid or missing API key''"
    using authenticate_request_error [OF a] by simp
  show ?thesis
    using assms(1) a b by (simp add: lambda_handler_def Let_def)
qed

lemma lambda_handler_wrong_method:
  assumes "Config_validate cfg = Inr ()" and "authenticated cfg ev"
    and "request_method ev \<noteq> Some ''POST''"
  shows "lambda_handler lib cfg be rid ev =
         create_response 405
           [(''error'', PStr ''Method not allowed. Use POST.''), (''request_id'', PStr rid)]"
  using assms by (simp add: lambda_handler_def Let_def authenticated_def)

lemma lambda_handler_post:
  assumes "Config_validate cfg = Inr ()" and "authenticated cfg ev"
    and "request_method ev = Some ''POST''"
  shows "lambda_handler lib cfg be rid ev =
         (case validated_flow lib cfg be rid (request_body ev) of
            Inl e \<Rightarrow> internal_error rid
          | Inr resp \<Rightarrow> resp)"
  using assms by (simp add: lambda_handler_def Let_def authenticated_def)

lemma lambda_handler_rejected:
  assumes "Config_validate cfg = Inr ()" and "authenticated cfg ev"
    and "request_method ev = Some ''POST''"
    and "validate_request lib cfg (request_body ev) = Inr (False, d, Some msg)"
  shows "lambda_handler lib cfg be rid ev =
         create_response 400 [(''error'', PStr msg), (''request_id'', PStr rid)]"
  using assms(4) by (simp add: lambda_handler_post [OF assms(1-3)] validated_flow_def)

lemma allowed_intent_nonempty: "i \<in> set ALLOWED_INTENTS \<Longrightarrow> i \<noteq> []"
  by (auto simp: ALLOWED_INTENTS_def)

lemma validate_intent_allowed:
  "i \<in> set ALLOWED_INTENTS \<Longrightarrow> validate_intent lib (PStr i) = Inr (True, None)"
  by (simp add: validate_intent_def allowed_intent_nonempty)

lemma validate_intent_missing:
  "validate_intent lib PNone = Inr (False, Some ''Intent is required'')"
  by (simp add: validate_intent_def)




lemma validate_request_payload_too_large:
  assumes "MAX_PAYLOAD_SIZE cfg < int (length (encode_utf8 body))"
  shows "validate_request lib cfg body =
         Inr (False, PNone,
              Some (''Payload too large: '' @ str_int (int (length (encode_utf8 body)))
                    @ '' bytes (max: '' @ str_int (MAX_PAYLOAD_SIZE cfg) @ '' bytes)''))"
  using assms by (simp add: validate_request_def validate_payload_size_def Let_def)

lemma py_get_dict: "py_get (PDict kvs) k d = Inr (field_or kvs k d)"
  by (simp add: field_or_def split: option.splits)

lemma validate_request_parsed:
  assumes "int (length (encode_utf8 body)) \<le> MAX_PAYLOAD_SIZE cfg"
    and "json_loads lib body = Inr (PDict obj)"
  shows "validate_request lib cfg body =
         (case validate_intent lib (field_or obj ''intent'' PNone) of
            Inl e \<Rightarrow> Inl e
          | Inr r3 \<Rightarrow>
              if \<not> fst r3 then Inr (False, PNone, snd r3)
              else (case validate_intent_params lib cfg (field_or obj ''intent'' PNone)
                           (field_or obj ''params'' (PDict [])) of
                      Inl e \<Rightarrow> Inl e
                    | Inr r4 \<Rightarrow>
                        if \<not> fst r4 then Inr (False, PNone, snd r4)
                        else Inr (True, PDict obj, None)))"
  using assms
  by (simp add: validate_request_def validate_payload_size_def validate_json_def Let_def py_get_dict
      del: py_get.simps cong: sum.case_cong if_cong)

lemma validate_intent_params_len:
  "validate_intent_params lib cfg i p = Inr r \<Longrightarrow> \<exists>n. py_len p = Inr n"
  by (cases p) (simp_all add: validate_intent_params_def check_optional_def)

lemma check_field_rejecting: "rejecting (check_field k validator p)"
  by (auto simp: rejecting_def check_field_def split: sum.splits if_splits)

lemma check_optional_rejecting: "rejecting (check_optional k validator p)"
  using check_field_rejecting [of k validator p]
  by (auto simp: rejecting_def check_optional_def split: sum.splits if_splits)

lemma check_required_rejecting: "rejecting (check_required ks p)"
  by (induction ks) (auto simp: rejecting_def split: sum.splits if_splits)

lemma run_steps_accept:
  assumes "run_steps ss = Inr r" and "fst r" and "\<forall>s \<in> set ss. rejecting s"
  shows "r = (True, None) \<and> (\<forall>s \<in> set ss. s = Inr None)"
  using assms
proof (induction ss)
  case Nil
  then show ?case by auto
next
  case (Cons s ss)
  from Cons.prems(3) have rs: "rejecting s" by simp
  show ?case
  proof (cases s)
    case (Inl e)
    with Cons.prems(1) show ?thesis by simp
  next
    case (Inr o1)
    show ?thesis
    proof (cases o1)
      case None
      with Inr Cons show ?thesis by simp
    next
      case (Some q)
      with Inr Cons.prems(1) have "r = q" by simp
      moreover from rs Inr Some have "\<not> fst q" by (simp add: rejecting_def)
      ultimately show ?thesis using Cons.prems(2) by simp
    qed
  qed
qed

lemma intent_steps_list_all: "list_all rejecting (intent_steps lib intent params)"
  by (simp add: intent_steps_def check_field_rejecting check_optional_rejecting
      check_required_rejecting del: check_required.simps)

lemma intent_steps_rejecting: "\<forall>s \<in> set (intent_steps lib intent params). rejecting s"
  using intent_steps_list_all [of lib intent params] by (simp only: list_all_iff)

lemma validate_intent_params_accept:
  assumes "validate_intent_params lib cfg intent params = Inr r" and "fst r"
  shows "r = (True, None)"
    and "check_optional ''limit'' (validate_limit lib cfg) params = Inr None"
    and "\<forall>s \<in> set (intent_steps lib intent params). s = Inr None"
proof -
  have "\<forall>s \<in> set (check_optional ''limit'' (validate_limit lib cfg) params
                   # intent_steps lib intent params). rejecting s"
    using intent_steps_rejecting [of lib intent params]
    by (simp add: check_optional_rejecting)
  from run_steps_accept [OF assms(1) [unfolded validate_intent_params_def] assms(2) this]
  show "r = (True, None)"
    and "check_optional ''limit'' (validate_limit lib cfg) params = Inr None"
    and "\<forall>s \<in> set (intent_steps lib intent params). s = Inr None"
    by simp_all
qed

lemma validate_request_accepted:
  assumes "validate_request lib cfg body = Inr (True, data, err)"
  shows "\<exists>intent params n.
           py_get data ''intent'' PNone = Inr intent
         \<and> py_get data ''params'' (PDict []) = Inr params
         \<and> validate_intent lib intent = Inr (True, None)
         \<and> validate_intent_params lib cfg intent params = Inr (True, None)
         \<and> py_len params = Inr n"
proof -
  from assms obtain r2 intent r3 params r4 where
    a: "validate_json lib body = Inr r2" "fst r2" "data = fst (snd r2)"
       "py_get data ''intent'' PNone = Inr intent"
       "validate_intent lib intent = Inr r3" "fst r3"
       "py_get data ''params'' (PDict []) = Inr params"
       "validate_intent_params lib cfg intent params = Inr r4" "fst r4"
    by (auto simp: validate_request_def Let_def split: if_splits sum.splits)
  have b: "r3 = (True, None)"
    using a(5,6) by (auto simp: validate_intent_def split: if_splits pyval.splits)
  have c: "r4 = (True, None)"
    using validate_intent_params_accept(1) [OF a(8,9)] .
  from validate_intent_params_len [OF a(8)] obtain n where "py_len params = Inr n" ..
  with a b c show ?thesis by auto
qed

lemma lambda_handler_accepted:
  assumes "Config_validate cfg = Inr ()" and "authenticated cfg ev"
    and "request_method ev = Some ''POST''"
    and "validate_request lib cfg (request_body ev) = Inr (True, data, err)"
  shows "lambda_handler lib cfg be rid ev =
         (case dispatch lib be rid data of Inl e \<Rightarrow> internal_error rid | Inr resp \<Rightarrow> resp)"
  using assms(4) by (simp add: lambda_handler_post [OF assms(1-3)] validated_flow_def)

lemma statusCode_dispatch:
  assumes "py_get data ''intent'' PNone = Inr intent"
    and "py_get data ''params'' (PDict []) = Inr params"
    and "py_len params = Inr n"
  shows "\<exists>resp. dispatch lib be rid data = Inr resp \<and>
           statusCode resp =
             (case execute_intent lib be intent params of
                Inl e \<Rightarrow> 500
              | Inr result \<Rightarrow> if result_success result then 200 else 500)"
  using assms
  by (simp add: dispatch_def internal_error_def Let_def split: sum.splits)

section \<open>C1: the order of the gateway's terminal states\<close>

text \<open>
  C1, as the code has it. The handler stops at the first applicable state in the order
  configuration invalid (500), unauthenticated (401), method not allowed (405),
  validation rejected (400), then execution failed (500) or success (200): the
  credential is checked before the HTTP method, so a call that is not a POST gets 405
  only when its credential is valid.
\<close>

theorem gateway_state_order:
  "(Config_validate cfg \<noteq> Inr () \<longrightarrow>
      statusCode (lambda_handler lib cfg be rid ev) = 500)
   \<and> (Config_validate cfg = Inr () \<and> \<not> authenticated cfg ev \<longrightarrow>
      statusCode (lambda_handler lib cfg be rid ev) = 401)
   \<and> (Config_validate cfg = Inr () \<and> authenticated cfg ev
        \<and> request_method ev \<noteq> Some ''POST'' \<longrightarrow>
      statusCode (lambda_handler lib cfg be rid ev) = 405)
   \<and> (Config_validate cfg = Inr () \<and> authenticated cfg ev
        \<and> request_method ev = Some ''POST''
        \<and> validate_request lib cfg (request_body ev) = Inr (False, d, Some msg) \<longrightarrow>
      statusCode (lambda_handler lib cfg be rid ev) = 400)
   \<and> (Config_validate cfg = Inr () \<and> authenticated cfg ev
        \<and> request_method ev = Some ''POST''
        \<and> validate_request lib cfg (request_body ev) = Inr (True, data, err) \<longrightarrow>
      (\<exists>intent params.
          py_get data ''intent'' PNone = Inr intent
        \<and> py_get data ''params'' (PDict []) = Inr params
        \<and> statusCode (lambda_handler lib cfg be rid ev) =
            (case execute_intent lib be intent params of
               Inl e \<Rightarrow> 500
             | Inr result \<Rightarrow> if result_success result then 200 else 500)))"
proof (intro conjI impI)
  assume "Config_validate cfg \<noteq> Inr ()"
  then show "statusCode (lambda_handler lib cfg be rid ev) = 500"
    by (simp add: lambda_handler_config_invalid)
next
  assume "Config_validate cfg = Inr () \<and> \<not> authenticated cfg ev"
  then show "statusCode (lambda_handler lib cfg be rid ev) = 401"
    by (simp add: lambda_handler_unauthenticated)
next
  assume "Config_validate cfg = Inr () \<and> authenticated cfg ev
          \<and> request_method ev \<noteq> Some ''POST''"
  then show "statusCode (lambda_handler lib cfg be rid ev) = 405"
    by (simp add: lambda_handler_wrong_method)
next
  assume "Config_validate cfg = Inr () \<and> authenticated cfg ev
          \<and> request_method ev = Some ''POST''
          \<and> validate_request lib cfg (request_body ev) = Inr (False, d, Some msg)"
  then show "statusCode (lambda_handler lib cfg be rid ev) = 400"
    by (simp add: lambda_handler_rejected)
next
  assume a: "Config_validate cfg = Inr () \<and> authenticated cfg ev
          \<and> request_method ev = Some ''POST''
          \<and> validate_request lib cfg (request_body ev) = Inr (True, data, err)"
  then have v: "validate_request lib cfg (request_body ev) = Inr (True, data, err)" by simp
  from validate_request_accepted [OF v] obtain intent params n where
    g: "py_get data ''intent'' PNone = Inr intent"
       "py_get data ''params'' (PDict []) = Inr params"
       "py_len params = Inr n"
    by blast
  from statusCode_dispatch [OF g, of lib be rid] obtain resp where
    r: "dispatch lib be rid data = Inr resp"
       "statusCode resp = (case execute_intent lib be intent params of
                             Inl e \<Rightarrow> 500
                           | Inr result \<Rightarrow> if result_success result then 200 else 500)"
    by blast
  have "lambda_handler lib cfg be rid ev = resp"
    using a r(1) by (simp add: lambda_handler_accepted)
  with g r(2) show "\<exists>intent params.
          py_get data ''intent'' PNone = Inr intent
        \<and> py_get data ''params'' (PDict []) = Inr params
        \<and> statusCode (lambda_handler lib cfg be rid ev) =
            (case execute_intent lib be intent params of
               Inl e \<Rightarrow> 500
             | Inr result \<Rightarrow> if result_success result then 200 else 500)"
    by blast
qed

text \<open>
  The five states at concrete calls: no configured keys; a GET without a credential; a
  GET with a valid key; a POST whose body is not JSON; a POST for the anomalies intent.
\<close>

theorem gateway_state_order_witness:
  \<open>statusCode (lambda_handler (example_lib []) (example_cfg\<lparr>API_KEYS_STR := []\<rparr>)
       example_backend ''req-1'' (example_event Map.empty Absent ''POST'')) = 500
   \<and> statusCode (lambda_handler (example_lib []) example_cfg example_backend ''req-1''
       (example_event Map.empty Absent ''GET'')) = 401
   \<and> statusCode (lambda_handler (example_lib []) example_cfg example_backend ''req-1''
       (example_event [''x-api-key'' \<mapsto> ''beta''] Absent ''GET'')) = 405
   \<and> statusCode (lambda_handler (example_lib []) example_cfg example_backend ''req-1''
       (example_event [''x-api-key'' \<mapsto> ''beta''] (Val ''not json'') ''POST'')) = 400
   \<and> statusCode (lambda_handler
         (example_lib [(''{"intent":"get_anomalies"}'', PDict [(''intent'', PStr ''get_anomalies'')])])
         example_cfg example_backend ''req-1''
         (example_event [''x-api-key'' \<mapsto> ''beta'']
            (Val ''{"intent":"get_anomalies"}'') ''POST'')) = 200\<close>
proof -
  let ?good = "[''x-api-key'' \<mapsto> ''beta'']"
  let ?lib = \<open>example_lib [(''{"intent":"get_anomalies"}'',
                             PDict [(''intent'', PStr ''get_anomalies'')])]\<close>
  have h1: "Config_validate (example_cfg\<lparr>API_KEYS_STR := []\<rparr>) \<noteq> Inr ()"
    by code_simp
  have h2: "Config_validate example_cfg = Inr ()
            \<and> \<not> authenticated example_cfg (example_event Map.empty Absent ''GET'')"
    by code_simp
  have h3: "Config_validate example_cfg = Inr ()
            \<and> authenticated example_cfg (example_event ?good Absent ''GET'')
            \<and> request_method (example_event ?good Absent ''GET'') \<noteq> Some ''POST''"
    by code_simp
  have h4: "Config_validate example_cfg = Inr ()
            \<and> authenticated example_cfg (example_event ?good (Val ''not json'') ''POST'')
            \<and> request_method (example_event ?good (Val ''not json'') ''POST'') = Some ''POST''
            \<and> validate_request (example_lib []) example_cfg
                 (request_body (example_event ?good (Val ''not json'') ''POST''))
               = Inr (False, PNone,
                      Some ''Invalid JSON: Expecting value: line 1 column 1 (char 0)'')"
    by code_simp
  have h5: \<open>Config_validate example_cfg = Inr ()
            \<and> authenticated example_cfg
                 (example_event ?good (Val ''{"intent":"get_anomalies"}'') ''POST'')
            \<and> request_method
                 (example_event ?good (Val ''{"intent":"get_anomalies"}'') ''POST'')
               = Some ''POST''
            \<and> validate_request ?lib example_cfg
                 (request_body (example_event ?good (Val ''{"intent":"get_anomalies"}'') ''POST''))
               = Inr (True, PDict [(''intent'', PStr ''get_anomalies'')], None)\<close>
    by code_simp
  note g = gateway_state_order
  have c1: "statusCode (lambda_handler (example_lib []) (example_cfg\<lparr>API_KEYS_STR := []\<rparr>)
       example_backend ''req-1'' (example_event Map.empty Absent ''POST'')) = 500"
    using g [THEN conjunct1, rule_format, OF h1] .
  have c2: "statusCode (lambda_handler (example_lib []) example_cfg example_backend ''req-1''
       (example_event Map.empty Absent ''GET'')) = 401"
    using g [THEN conjunct2, THEN conjunct1, rule_format, OF h2] .
  have c3: "statusCode (lambda_handler (example_lib []) example_cfg example_backend ''req-1''
       (example_event ?good Absent ''GET'')) = 405"
    using g [THEN conjunct2, THEN conjunct2, THEN conjunct1, rule_format, OF h3] .
  have c4: "statusCode (lambda_handler (example_lib []) example_cfg example_backend ''req-1''
       (example_event ?good (Val ''not json'') ''POST'')) = 400"
    using g [THEN conjunct2, THEN conjunct2, THEN conjunct2, THEN conjunct1, rule_format, OF h4] .
  from g [THEN conjunct2, THEN conjunct2, THEN conjunct2, THEN conjunct2, rule_format, OF h5,
          of example_backend "''req-1''"]
  obtain intent params where
    i: "py_get (PDict [(''intent'', PStr ''get_anomalies'')]) ''intent'' PNone = Inr intent"
    and p: "py_get (PDict [(''intent'', PStr ''get_anomalies'')]) ''params'' (PDict []) = Inr params"
    and s: \<open>statusCode (lambda_handler ?lib example_cfg example_backend ''req-1''
              (example_event ?good (Val ''{"intent":"get_anomalies"}'') ''POST'')) =
            (case execute_intent ?lib example_backend intent params of
               Inl e \<Rightarrow> 500
             | Inr result \<Rightarrow> if result_success result then 200 else 500)\<close>
    by blast
  from i have i': "intent = PStr ''get_anomalies''" by simp
  from p have p': "params = PDict []" by simp
  have e: "(case execute_intent ?lib example_backend (PStr ''get_anomalies'') (PDict []) of
              Inl e \<Rightarrow> 500
            | Inr result \<Rightarrow> if result_success result then 200 else 500) = (200 :: int)"
    by code_simp
  have c5: \<open>statusCode (lambda_handler ?lib example_cfg example_backend ''req-1''
              (example_event ?good (Val ''{"intent":"get_anomalies"}'') ''POST'')) = 200\<close>
    using s e unfolding i' p' by simp
  from c1 c2 c3 c4 c5 show ?thesis by blast
qed

text \<open>
  C1 as stated fails: a GET without a credential, and a GET with a wrong one, is answered
  401, not 405.
\<close>

theorem non_post_without_credential_is_401:
  "statusCode (lambda_handler (example_lib []) example_cfg example_backend ''req-1''
                 (example_event Map.empty Absent ''GET'')) = 401
   \<and> statusCode (lambda_handler (example_lib []) example_cfg example_backend ''req-1''
                 (example_event [''x-api-key'' \<mapsto> ''wrong''] Absent ''GET'')) = 401"
  by code_simp

section \<open>C5: a limit above the maximum is rejected\<close>



text \<open>
  Float limits go through \<^verbatim>\<open>int\<close> like every other: a finite one is truncated before
  the comparison, and on an infinite one \<^verbatim>\<open>int\<close> raises \<^verbatim>\<open>OverflowError\<close>, which
  \<^verbatim>\<open>validate_limit\<close> does not catch.
\<close>

lemma validate_limit_float:
  "validate_limit lib (cfg\<lparr>MAX_QUERY_LIMIT := 1000\<rparr>) (PFloat (Finite (2001 / 2)))
     = Inr (True, Some 1000, None)"
  "validate_limit lib cfg (PFloat PosInf) = Inl OverflowError"
proof -
  have "trunc_rat (2001 / 2) = 1000" by code_simp
  then show "validate_limit lib (cfg\<lparr>MAX_QUERY_LIMIT := 1000\<rparr>) (PFloat (Finite (2001 / 2)))
     = Inr (True, Some 1000, None)"
    by (simp add: validate_limit_def)
  show "validate_limit lib cfg (PFloat PosInf) = Inl OverflowError"
    by (simp add: validate_limit_def)
qed

section \<open>C6: an oversized payload is rejected before parsing\<close>

text \<open>
  C6. A body whose UTF-8 encoding is longer than \<^verbatim>\<open>MAX_PAYLOAD_SIZE\<close> is rejected by
  \<^verbatim>\<open>validate_request\<close> with a message naming its size and the maximum, whatever
  \<^verbatim>\<open>json.loads\<close> would do with it (the result is the same for every parser, so the
  parser is not consulted), and an authenticated POST carrying it is answered 400.
\<close>

theorem oversized_payload_rejected:
  assumes "MAX_PAYLOAD_SIZE cfg < int (length (encode_utf8 body))"
    and "0 \<le> MAX_PAYLOAD_SIZE cfg"
  shows "validate_request lib cfg body =
           Inr (False, PNone,
                Some (''Payload too large: '' @ str_int (int (length (encode_utf8 body)))
                      @ '' bytes (max: '' @ str_int (MAX_PAYLOAD_SIZE cfg) @ '' bytes)''))
       \<and> validate_request lib' cfg body = validate_request lib cfg body
       \<and> (Config_validate cfg = Inr () \<and> authenticated cfg ev
            \<and> request_method ev = Some ''POST'' \<and> ev_body ev = Val body \<longrightarrow>
            lambda_handler lib cfg be rid ev =
              create_response 400
                [(''error'',
                  PStr (''Payload too large: '' @ str_int (int (length (encode_utf8 body)))
                        @ '' bytes (max: '' @ str_int (MAX_PAYLOAD_SIZE cfg) @ '' bytes)'')),
                 (''request_id'', PStr rid)])"
proof (intro conjI impI)
  let ?msg = "''Payload too large: '' @ str_int (int (length (encode_utf8 body)))
              @ '' bytes (max: '' @ str_int (MAX_PAYLOAD_SIZE cfg) @ '' bytes)''"
  show v: "validate_request lib cfg body = Inr (False, PNone, Some ?msg)" for lib
    using assms(1) by (rule validate_request_payload_too_large)
  show "validate_request lib' cfg body = validate_request lib cfg body"
    by (simp add: v)
  assume a: "Config_validate cfg = Inr () \<and> authenticated cfg ev
             \<and> request_method ev = Some ''POST'' \<and> ev_body ev = Val body"
  from assms have "body \<noteq> []"
    by (auto simp: encode_utf8_def)
  with a have "request_body ev = body"
    by (simp add: request_body_def)
  with a v [of lib] show "lambda_handler lib cfg be rid ev =
      create_response 400 [(''error'', PStr ?msg), (''request_id'', PStr rid)]"
    by (simp add: lambda_handler_rejected)
qed

text \<open>A body of 28 characters and 29 bytes against a maximum of 16.\<close>

theorem oversized_payload_rejected_witness:
  \<open>lambda_handler (example_lib []) (example_cfg\<lparr>MAX_PAYLOAD_SIZE := 16\<rparr>) example_backend
       ''req-1''
       (example_event [''X-Api-Key'' \<mapsto> ''beta'']
          (Val (''{"intent":"get_anomalies", '' @ [char_of (233 :: nat)])) ''POST'')
     = create_response 400
         [(''error'', PStr ''Payload too large: 29 bytes (max: 16 bytes)''),
          (''request_id'', PStr ''req-1'')]\<close>
proof -
  let ?body = \<open>''{"intent":"get_anomalies", '' @ [char_of (233 :: nat)]\<close>
  let ?cfg = "example_cfg\<lparr>MAX_PAYLOAD_SIZE := 16\<rparr>"
  let ?ev = "example_event [''X-Api-Key'' \<mapsto> ''beta''] (Val ?body) ''POST''"
  have h1: "MAX_PAYLOAD_SIZE ?cfg < int (length (encode_utf8 ?body))" by code_simp
  have h2: "0 \<le> MAX_PAYLOAD_SIZE ?cfg" by code_simp
  have h3: "Config_validate ?cfg = Inr () \<and> authenticated ?cfg ?ev
            \<and> request_method ?ev = Some ''POST'' \<and> ev_body ?ev = Val ?body"
    by code_simp
  have t: "''Payload too large: '' @ str_int (int (length (encode_utf8 ?body)))
           @ '' bytes (max: '' @ str_int (MAX_PAYLOAD_SIZE ?cfg) @ '' bytes)''
           = ''Payload too large: 29 bytes (max: 16 bytes)''"
    by code_simp
  have r: "lambda_handler (example_lib []) ?cfg example_backend ''req-1'' ?ev
           = create_response 400
               [(''error'',
                 PStr (''Payload too large: '' @ str_int (int (length (encode_utf8 ?body)))
                       @ '' bytes (max: '' @ str_int (MAX_PAYLOAD_SIZE ?cfg) @ '' bytes)'')),
                (''request_id'', PStr ''req-1'')]"
    using oversized_payload_rejected [OF h1 h2, THEN conjunct2, THEN conjunct2, rule_format, OF h3] .
  show ?thesis
    using r unfolding t .
qed

section \<open>C7: a missing credential, and an empty credential set\<close>

text \<open>
  C7. When no credential can be extracted from the headers, authentication fails with
  the message \<^verbatim>\<open>Unauthorized: Invalid or missing API key\<close>, its only effect is one
  warning line (the configured credential set is not read), and the gateway, once its
  configuration is valid, answers 401 with that message. When the configured credential
  set is empty, \<^verbatim>\<open>validate_api_key\<close> and \<^verbatim>\<open>authenticate_request\<close> fail for every
  key and every headers map.
\<close>

theorem missing_credential_fails_closed:
  "(extract_api_key hdrs = None \<longrightarrow>
      authenticate_request cfg hdrs =
        ((False, Some ''Unauthorized: Invalid or missing API key''),
         [LogLine ''warning'' ''API request missing x-api-key header''])
      \<and> ReadApiKeys \<notin> set (snd (authenticate_request cfg hdrs))
      \<and> (Config_validate cfg = Inr () \<and> request_headers ev = hdrs \<longrightarrow>
           lambda_handler lib cfg be rid ev =
             create_response 401
               [(''error'', PStr ''Unauthorized: Invalid or missing API key''),
                (''request_id'', PStr rid)]))
   \<and> (get_api_keys cfg = [] \<longrightarrow>
        \<not> fst (validate_api_key cfg api_key)
        \<and> fst (authenticate_request cfg hdrs') =
            (False, Some ''Unauthorized: Invalid or missing API key''))"
proof (intro conjI impI)
  assume n: "extract_api_key hdrs = None"
  then show a: "authenticate_request cfg hdrs =
        ((False, Some ''Unauthorized: Invalid or missing API key''),
         [LogLine ''warning'' ''API request missing x-api-key header''])"
    by (simp add: authenticate_request_def validate_api_key_def)
  then show "ReadApiKeys \<notin> set (snd (authenticate_request cfg hdrs))"
    by simp
  assume "Config_validate cfg = Inr () \<and> request_headers ev = hdrs"
  with a show "lambda_handler lib cfg be rid ev =
             create_response 401
               [(''error'', PStr ''Unauthorized: Invalid or missing API key''),
                (''request_id'', PStr rid)]"
    by (simp add: lambda_handler_unauthenticated authenticated_def)
next
  assume e: "get_api_keys cfg = []"
  then show v: "\<not> fst (validate_api_key cfg api_key)" for api_key
    by (simp add: validate_api_key_def split: option.splits)
  then show "fst (authenticate_request cfg hdrs') =
            (False, Some ''Unauthorized: Invalid or missing API key'')"
    by (simp add: authenticate_request_def Let_def)
qed

text \<open>A POST without headers under the example configuration, and the key
  \<^verbatim>\<open>alpha\<close> against a configuration whose key list is blank.\<close>

theorem missing_credential_fails_closed_witness:
  "lambda_handler (example_lib []) example_cfg example_backend ''req-1''
       \<lparr> ev_headers = Absent, ev_body = Val ''{}'', ev_httpMethod = Val ''POST'' \<rparr>
     = create_response 401
         [(''error'', PStr ''Unauthorized: Invalid or missing API key''),
          (''request_id'', PStr ''req-1'')]
   \<and> ReadApiKeys \<notin> set (snd (authenticate_request example_cfg Map.empty))
   \<and> \<not> fst (validate_api_key (example_cfg\<lparr>API_KEYS_STR := '' , ''\<rparr>) (Some ''alpha''))"
proof -
  let ?ev = "\<lparr> ev_headers = Absent, ev_body = Val ''{}'', ev_httpMethod = Val ''POST'' \<rparr>"
  have h1: "extract_api_key Map.empty = None" by code_simp
  have h2: "Config_validate example_cfg = Inr () \<and> request_headers ?ev = Map.empty"
    by (simp add: request_headers_def) code_simp
  have h3: "get_api_keys (example_cfg\<lparr>API_KEYS_STR := '' , ''\<rparr>) = []" by code_simp
  note t = missing_credential_fails_closed
  have a: "lambda_handler (example_lib []) example_cfg example_backend ''req-1'' ?ev
     = create_response 401
         [(''error'', PStr ''Unauthorized: Invalid or missing API key''),
          (''request_id'', PStr ''req-1'')]"
    using t [THEN conjunct1, rule_format, OF h1, THEN conjunct2, THEN conjunct2, rule_format, OF h2] .
  have b: "ReadApiKeys \<notin> set (snd (authenticate_request example_cfg Map.empty))"
    using t [THEN conjunct1, rule_format, OF h1, THEN conjunct2, THEN conjunct1] .
  have c: "\<not> fst (validate_api_key (example_cfg\<lparr>API_KEYS_STR := '' , ''\<rparr>) (Some ''alpha''))"
    using t [THEN conjunct2, rule_format, OF h3, THEN conjunct1] .
  from a b c show ?thesis by blast
qed

section \<open>C10: a call without a body\<close>

text \<open>
  C10. For an authenticated POST whose event has no body, a \<^verbatim>\<open>None\<close> body or an
  empty one, the handler validates the text \<^verbatim>\<open>{}\<close> instead; \<^verbatim>\<open>json.loads\<close> gives
  the empty dict for it, so validation stops at the intent check and the answer is 400
  with \<^verbatim>\<open>Intent is required\<close>, provided the two bytes fit the configured payload
  maximum.
\<close>

theorem empty_body_intent_required:
  assumes "Config_validate cfg = Inr ()" and "authenticated cfg ev"
    and "request_method ev = Some ''POST''"
    and "ev_body ev = Absent \<or> ev_body ev = Null \<or> ev_body ev = Val []"
    and "2 \<le> MAX_PAYLOAD_SIZE cfg"
    and "json_loads lib ''{}'' = Inr (PDict [])"
  shows "request_body ev = ''{}''
       \<and> validate_request lib cfg (request_body ev)
           = Inr (False, PNone, Some ''Intent is required'')
       \<and> lambda_handler lib cfg be rid ev =
           create_response 400
             [(''error'', PStr ''Intent is required''), (''request_id'', PStr rid)]"
proof -
  have b: "request_body ev = ''{}''"
    using assms(4) by (auto simp: request_body_def)
  have n: "int (length (encode_utf8 ''{}'')) = 2"
    by (simp add: encode_utf8_def utf8_char_def)
  have v: "validate_request lib cfg ''{}'' = Inr (False, PNone, Some ''Intent is required'')"
    using assms(5,6)
    by (simp add: validate_request_parsed [where obj = "[]"] n field_or_def validate_intent_missing)
  from v b have "lambda_handler lib cfg be rid ev =
           create_response 400
             [(''error'', PStr ''Intent is required''), (''request_id'', PStr rid)]"
    using assms(1-3) by (simp add: lambda_handler_rejected)
  with b v show ?thesis by simp
qed

text \<open>The three shapes of a missing body, with a valid key.\<close>

theorem empty_body_intent_required_witness:
  "lambda_handler (example_lib [(''{}'', PDict [])]) example_cfg example_backend ''req-1''
       (example_event [''x-api-key'' \<mapsto> ''alpha''] Absent ''POST'')
     = create_response 400
         [(''error'', PStr ''Intent is required''), (''request_id'', PStr ''req-1'')]
   \<and> lambda_handler (example_lib [(''{}'', PDict [])]) example_cfg example_backend ''req-1''
       (example_event [''x-api-key'' \<mapsto> ''alpha''] Null ''POST'')
     = create_response 400
         [(''error'', PStr ''Intent is required''), (''request_id'', PStr ''req-1'')]
   \<and> lambda_handler (example_lib [(''{}'', PDict [])]) example_cfg example_backend ''req-1''
       (example_event [''x-api-key'' \<mapsto> ''alpha''] (Val []) ''POST'')
     = create_response 400
         [(''error'', PStr ''Intent is required''), (''request_id'', PStr ''req-1'')]"
proof -
  let ?lib = "example_lib [(''{}'', PDict [])]"
  let ?hd = "[''x-api-key'' \<mapsto> ''alpha'']"
  have c: "Config_validate example_cfg = Inr ()" by code_simp
  have a: "authenticated example_cfg (example_event ?hd b ''POST'')" for b
    unfolding authenticated_def request_headers_def example_event_def by simp code_simp
  have m: "request_method (example_event ?hd b ''POST'') = Some ''POST''" for b
    by (simp add: request_method_def example_event_def)
  have s: "2 \<le> MAX_PAYLOAD_SIZE example_cfg" by code_simp
  have j: "json_loads ?lib ''{}'' = Inr (PDict [])" by code_simp
  have b1: "ev_body (example_event ?hd Absent ''POST'') = Absent
            \<or> ev_body (example_event ?hd Absent ''POST'') = Null
            \<or> ev_body (example_event ?hd Absent ''POST'') = Val []"
    by (simp add: example_event_def)
  have b2: "ev_body (example_event ?hd Null ''POST'') = Absent
            \<or> ev_body (example_event ?hd Null ''POST'') = Null
            \<or> ev_body (example_event ?hd Null ''POST'') = Val []"
    by (simp add: example_event_def)
  have b3: "ev_body (example_event ?hd (Val []) ''POST'') = Absent
            \<or> ev_body (example_event ?hd (Val []) ''POST'') = Null
            \<or> ev_body (example_event ?hd (Val []) ''POST'') = Val []"
    by (simp add: example_event_def)
  note t = empty_body_intent_required [OF c a m _ s j, THEN conjunct2, THEN conjunct2]
  from t [OF b1] t [OF b2] t [OF b3] show ?thesis by blast
qed

section \<open>C2: the whitelist and the router\<close>

text \<open>
  C2 at the intent \<^verbatim>\<open>query_logs\<close>. The validator accepts it, with any params that
  hold no limit, but the router has no handler for it: \<^verbatim>\<open>execute_intent\<close> takes its
  no-handler branch, and the gateway answers a valid, authenticated call with 500. The
  router's keys are the whitelist without that name.
\<close>

theorem query_logs_has_no_handler:
  \<open>''query_logs'' \<in> set ALLOWED_INTENTS
   \<and> validate_intent lib (PStr ''query_logs'') = Inr (True, None)
   \<and> validate_intent_params lib cfg (PStr ''query_logs'') (PDict []) = Inr (True, None)
   \<and> map_of INTENT_HANDLERS ''query_logs'' = None
   \<and> execute_intent lib be (PStr ''query_logs'') (PDict []) =
       Inr [(''success'', PBool False),
            (''error'', PStr ''No handler for intent: query_logs'')]
   \<and> set (map fst INTENT_HANDLERS) = set ALLOWED_INTENTS - {''query_logs''}
   \<and> lambda_handler
         (example_lib [(''{"intent":"query_logs"}'', PDict [(''intent'', PStr ''query_logs'')])])
         example_cfg be ''req-1''
         (example_event [''x-api-key'' \<mapsto> ''alpha''] (Val ''{"intent":"query_logs"}'') ''POST'')
       = create_response 500
           [(''request_id'', PStr ''req-1''), (''success'', PBool False),
            (''error'', PStr ''No handler for intent: query_logs'')]\<close>
proof -
  let ?text = \<open>''{"intent":"query_logs"}''\<close>
  let ?data = "PDict [(''intent'', PStr ''query_logs'')]"
  let ?lib = "example_lib [(?text, ?data)]"
  let ?ev = "example_event [''x-api-key'' \<mapsto> ''alpha''] (Val ?text) ''POST''"
  have a: "''query_logs'' \<in> set ALLOWED_INTENTS"
    by (simp add: ALLOWED_INTENTS_def)
  have b: "validate_intent lib (PStr ''query_logs'') = Inr (True, None)" for lib
    using a by (rule validate_intent_allowed)
  have c: "validate_intent_params lib cfg (PStr ''query_logs'') (PDict []) = Inr (True, None)"
    for lib cfg
    by (simp add: validate_intent_params_def check_optional_def intent_steps_def)
  have d: "map_of INTENT_HANDLERS ''query_logs'' = None"
    by (simp add: INTENT_HANDLERS_def)
  have e: "execute_intent lib be (PStr ''query_logs'') (PDict []) =
       Inr [(''success'', PBool False), (''error'', PStr ''No handler for intent: query_logs'')]"
    for lib
    by (simp add: execute_intent_def lookup_handler_def d)
  have f: "set (map fst INTENT_HANDLERS) = set ALLOWED_INTENTS - {''query_logs''}"
    by (auto simp: INTENT_HANDLERS_def ALLOWED_INTENTS_def)
  have h: "Config_validate example_cfg = Inr ()" "authenticated example_cfg ?ev"
    "request_method ?ev = Some ''POST''"
    by code_simp+
  have v: "validate_request ?lib example_cfg (request_body ?ev) = Inr (True, ?data, None)"
    by code_simp
  have "dispatch ?lib be ''req-1'' ?data =
        Inr (create_response 500
               [(''request_id'', PStr ''req-1''), (''success'', PBool False),
                (''error'', PStr ''No handler for intent: query_logs'')])"
    by (simp add: dispatch_def e result_success_def dict_merge_def)
  then have g: "lambda_handler ?lib example_cfg be ''req-1'' ?ev
       = create_response 500
           [(''request_id'', PStr ''req-1''), (''success'', PBool False),
            (''error'', PStr ''No handler for intent: query_logs'')]"
    by (simp add: lambda_handler_accepted [OF h v])
  from a b c d e f g show ?thesis by blast
qed

section \<open>C4: the spelling of the API-key header\<close>

text \<open>
  C4 at the header name \<^verbatim>\<open>X-API-KEY\<close>. \<^verbatim>\<open>extract_api_key\<close> looks the credential
  up under \<^verbatim>\<open>x-api-key\<close> and \<^verbatim>\<open>X-Api-Key\<close> only, and returns the stripped value
  for those two spellings; under any other capitalisation it returns \<^verbatim>\<open>None\<close>, and
  the gateway answers 401 to a call that carries a configured key.
\<close>

lemma extract_api_key_two_names:
  "hdrs ''x-api-key'' = None \<Longrightarrow> hdrs ''X-Api-Key'' = None \<Longrightarrow> extract_api_key hdrs = None"
  by (simp add: extract_api_key_def or_else_def)

theorem upper_case_header_not_extracted:
  "extract_api_key [''x-api-key'' \<mapsto> '' alpha ''] = Some ''alpha''
   \<and> extract_api_key [''X-Api-Key'' \<mapsto> '' alpha ''] = Some ''alpha''
   \<and> extract_api_key [''X-API-KEY'' \<mapsto> '' alpha ''] = None
   \<and> statusCode (lambda_handler (example_lib [(''{}'', PDict [])]) example_cfg be ''req-1''
        (example_event [''X-Api-Key'' \<mapsto> ''alpha''] Absent ''POST'')) = 400
   \<and> lambda_handler (example_lib [(''{}'', PDict [])]) example_cfg be ''req-1''
        (example_event [''X-API-KEY'' \<mapsto> ''alpha''] Absent ''POST'')
      = create_response 401
          [(''error'', PStr ''Unauthorized: Invalid or missing API key''),
           (''request_id'', PStr ''req-1'')]"
proof -
  let ?lib = "example_lib [(''{}'', PDict [])]"
  have a: "extract_api_key [''x-api-key'' \<mapsto> '' alpha ''] = Some ''alpha''"
    "extract_api_key [''X-Api-Key'' \<mapsto> '' alpha ''] = Some ''alpha''"
    "extract_api_key [''X-API-KEY'' \<mapsto> '' alpha ''] = None"
    by code_simp+
  have c: "Config_validate example_cfg = Inr ()" by code_simp
  have g: "authenticated example_cfg (example_event [''X-Api-Key'' \<mapsto> ''alpha''] Absent ''POST'')"
    "request_method (example_event [''X-Api-Key'' \<mapsto> ''alpha''] Absent ''POST'') = Some ''POST''"
    by code_simp+
  have v: "validate_request ?lib example_cfg
             (request_body (example_event [''X-Api-Key'' \<mapsto> ''alpha''] Absent ''POST''))
           = Inr (False, PNone, Some ''Intent is required'')"
    by code_simp
  have d: "statusCode (lambda_handler ?lib example_cfg be ''req-1''
        (example_event [''X-Api-Key'' \<mapsto> ''alpha''] Absent ''POST'')) = 400"
    by (simp add: lambda_handler_rejected [OF c g v])
  have u: "\<not> authenticated example_cfg (example_event [''X-API-KEY'' \<mapsto> ''alpha''] Absent ''POST'')"
    by code_simp
  have e: "lambda_handler ?lib example_cfg be ''req-1''
        (example_event [''X-API-KEY'' \<mapsto> ''alpha''] Absent ''POST'')
      = create_response 401
          [(''error'', PStr ''Unauthorized: Invalid or missing API key''),
           (''request_id'', PStr ''req-1'')]"
    using c u by (rule lambda_handler_unauthenticated)
  from a d e show ?thesis by blast
qed

section \<open>C3: the bound parameters of the two store handlers\<close>

lemma py_getitem_Inr:
  "py_getitem p k = Inr v \<Longrightarrow> \<exists>kvs. p = PDict kvs \<and> map_of kvs k = Some v"
  by (cases p) (auto split: option.splits)

lemma check_field_passes:
  "check_field k validator p = Inr None \<Longrightarrow> \<exists>v. py_getitem p k = Inr v"
  by (auto simp: check_field_def split: sum.splits)

lemma check_required_passes:
  "check_required ks (PDict kvs) = Inr None \<Longrightarrow> \<forall>k \<in> set ks. map_of kvs k \<noteq> None"
  by (induction ks) (auto split: if_splits)

lemma py_getitem_dict: "map_of kvs k = Some v \<Longrightarrow> py_getitem (PDict kvs) k = Inr v"
  by simp

lemma validated_store_error_log:
  assumes "validate_intent_params lib cfg (PStr ''store_error_log'') params = Inr (True, None)"
  shows "\<exists>kvs ts lv ec em. params = PDict kvs
           \<and> map_of kvs ''timestamp'' = Some ts \<and> map_of kvs ''log_level'' = Some lv
           \<and> map_of kvs ''error_code'' = Some ec \<and> map_of kvs ''error_message'' = Some em"
proof -
  from validate_intent_params_accept(3) [OF assms]
  have r: "check_required [''timestamp'', ''log_level'', ''error_code'', ''error_message''] params
           = Inr None"
    and f: "check_field ''timestamp'' timestamp_validator params = Inr None"
    by (simp_all add: intent_steps_def del: check_required.simps)
  from check_field_passes [OF f] py_getitem_Inr obtain kvs where p: "params = PDict kvs"
    by blast
  from check_required_passes [OF r [unfolded p]] p show ?thesis
    by auto
qed

lemma validated_store_access_log:
  assumes "validate_intent_params lib cfg (PStr ''store_access_log'') params = Inr (True, None)"
  shows "\<exists>kvs ts ip m ep sc. params = PDict kvs
           \<and> map_of kvs ''timestamp'' = Some ts \<and> map_of kvs ''ip_address'' = Some ip
           \<and> map_of kvs ''method'' = Some m \<and> map_of kvs ''endpoint'' = Some ep
           \<and> map_of kvs ''status_code'' = Some sc"
proof -
  from validate_intent_params_accept(3) [OF assms]
  have r: "check_required [''timestamp'', ''ip_address'', ''method'', ''endpoint'', ''status_code'']
             params = Inr None"
    and f: "check_field ''timestamp'' timestamp_validator params = Inr None"
    by (simp_all add: intent_steps_def del: check_required.simps)
  from check_field_passes [OF f] py_getitem_Inr obtain kvs where p: "params = PDict kvs"
    by blast
  from check_required_passes [OF r [unfolded p]] p show ?thesis
    by auto
qed

text \<open>
  C3, as the code has it. For a validated \<^verbatim>\<open>store_error_log\<close> or
  \<^verbatim>\<open>store_access_log\<close> request the params are a dict holding the required fields;
  the handler binds the required values and, for each optional field, the value given
  or its default, which is \<^verbatim>\<open>None\<close> for every optional field except
  \<^verbatim>\<open>severity_score\<close>, whose default is 5; when the insert returns an id, the handler
  returns it in a success result.
\<close>

theorem store_handlers_bind_defaults:
  "(validate_intent_params lib cfg (PStr ''store_error_log'') params = Inr (True, None) \<longrightarrow>
      (\<exists>kvs ts lv ec em qp.
          params = PDict kvs
        \<and> map_of kvs ''timestamp'' = Some ts \<and> map_of kvs ''log_level'' = Some lv
        \<and> map_of kvs ''error_code'' = Some ec \<and> map_of kvs ''error_message'' = Some em
        \<and> qp = [ts, lv,
                 field_or kvs ''process_id'' PNone, field_or kvs ''thread_id'' PNone,
                 field_or kvs ''client_ip'' PNone, ec, em,
                 field_or kvs ''file_path'' PNone, field_or kvs ''line_number'' PNone,
                 field_or kvs ''severity_score'' (PInt 5)]
        \<and> error_log_query_params params = Inr qp
        \<and> (\<forall>log_id. execute_insert be error_log_insert qp = Inr log_id \<longrightarrow>
              handle_store_error_log be params =
                [(''success'', PBool True),
                 (''data'', PDict [(''id'', PInt log_id),
                                   (''message'', PStr ''Error log stored successfully'')])])))
   \<and> (validate_intent_params lib cfg (PStr ''store_access_log'') params = Inr (True, None) \<longrightarrow>
      (\<exists>kvs ts ip m ep sc qp.
          params = PDict kvs
        \<and> map_of kvs ''timestamp'' = Some ts \<and> map_of kvs ''ip_address'' = Some ip
        \<and> map_of kvs ''method'' = Some m \<and> map_of kvs ''endpoint'' = Some ep
        \<and> map_of kvs ''status_code'' = Some sc
        \<and> qp = [ts, ip, m, ep, field_or kvs ''http_version'' PNone, sc,
                 field_or kvs ''response_size'' PNone, field_or kvs ''response_time_ms'' PNone,
                 field_or kvs ''user_agent'' PNone, field_or kvs ''department'' PNone,
                 field_or kvs ''user_id'' PNone]
        \<and> access_log_query_params params = Inr qp
        \<and> (\<forall>log_id. execute_insert be access_log_insert qp = Inr log_id \<longrightarrow>
              handle_store_access_log be params =
                [(''success'', PBool True),
                 (''data'', PDict [(''id'', PInt log_id),
                                   (''message'', PStr ''Access log stored successfully'')])])))"
proof (intro conjI impI)
  assume "validate_intent_params lib cfg (PStr ''store_error_log'') params = Inr (True, None)"
  from validated_store_error_log [OF this] obtain kvs ts lv ec em where
    k: "params = PDict kvs" "map_of kvs ''timestamp'' = Some ts"
       "map_of kvs ''log_level'' = Some lv" "map_of kvs ''error_code'' = Some ec"
       "map_of kvs ''error_message'' = Some em"
    by blast
  define qp where "qp = [ts, lv,
                 field_or kvs ''process_id'' PNone, field_or kvs ''thread_id'' PNone,
                 field_or kvs ''client_ip'' PNone, ec, em,
                 field_or kvs ''file_path'' PNone, field_or kvs ''line_number'' PNone,
                 field_or kvs ''severity_score'' (PInt 5)]"
  have q: "error_log_query_params params = Inr qp"
    unfolding error_log_query_params_def k(1) qp_def
    by (simp add: py_get_dict py_getitem_dict k del: py_get.simps py_getitem.simps)
  have h: "handle_store_error_log be params =
                [(''success'', PBool True),
                 (''data'', PDict [(''id'', PInt log_id),
                                   (''message'', PStr ''Error log stored successfully'')])]"
    if "execute_insert be error_log_insert qp = Inr log_id" for log_id
    using that by (simp add: handle_store_error_log_def q)
  from k q h qp_def show "\<exists>kvs ts lv ec em qp.
          params = PDict kvs
        \<and> map_of kvs ''timestamp'' = Some ts \<and> map_of kvs ''log_level'' = Some lv
        \<and> map_of kvs ''error_code'' = Some ec \<and> map_of kvs ''error_message'' = Some em
        \<and> qp = [ts, lv,
                 field_or kvs ''process_id'' PNone, field_or kvs ''thread_id'' PNone,
                 field_or kvs ''client_ip'' PNone, ec, em,
                 field_or kvs ''file_path'' PNone, field_or kvs ''line_number'' PNone,
                 field_or kvs ''severity_score'' (PInt 5)]
        \<and> error_log_query_params params = Inr qp
        \<and> (\<forall>log_id. execute_insert be error_log_insert qp = Inr log_id \<longrightarrow>
              handle_store_error_log be params =
                [(''success'', PBool True),
                 (''data'', PDict [(''id'', PInt log_id),
                                   (''message'', PStr ''Error log stored successfully'')])])"
    by blast
next
  assume "validate_intent_params lib cfg (PStr ''store_access_log'') params = Inr (True, None)"
  from validated_store_access_log [OF this] obtain kvs ts ip m ep sc where
    k: "params = PDict kvs" "map_of kvs ''timestamp'' = Some ts"
       "map_of kvs ''ip_address'' = Some ip" "map_of kvs ''method'' = Some m"
       "map_of kvs ''endpoint'' = Some ep" "map_of kvs ''status_code'' = Some sc"
    by blast
  define qp where "qp = [ts, ip, m, ep, field_or kvs ''http_version'' PNone, sc,
                 field_or kvs ''response_size'' PNone, field_or kvs ''response_time_ms'' PNone,
                 field_or kvs ''user_agent'' PNone, field_or kvs ''department'' PNone,
                 field_or kvs ''user_id'' PNone]"
  have q: "access_log_query_params params = Inr qp"
    unfolding access_log_query_params_def k(1) qp_def
    by (simp add: py_get_dict py_getitem_dict k del: py_get.simps py_getitem.simps)
  have h: "handle_store_access_log be params =
                [(''success'', PBool True),
                 (''data'', PDict [(''id'', PInt log_id),
                                   (''message'', PStr ''Access log stored successfully'')])]"
    if "execute_insert be access_log_insert qp = Inr log_id" for log_id
    using that by (simp add: handle_store_access_log_def q)
  from k q h qp_def show "\<exists>kvs ts ip m ep sc qp.
          params = PDict kvs
        \<and> map_of kvs ''timestamp'' = Some ts \<and> map_of kvs ''ip_address'' = Some ip
        \<and> map_of kvs ''method'' = Some m \<and> map_of kvs ''endpoint'' = Some ep
        \<and> map_of kvs ''status_code'' = Some sc
        \<and> qp = [ts, ip, m, ep, field_or kvs ''http_version'' PNone, sc,
                 field_or kvs ''response_size'' PNone, field_or kvs ''response_time_ms'' PNone,
                 field_or kvs ''user_agent'' PNone, field_or kvs ''department'' PNone,
                 field_or kvs ''user_id'' PNone]
        \<and> access_log_query_params params = Inr qp
        \<and> (\<forall>log_id. execute_insert be access_log_insert qp = Inr log_id \<longrightarrow>
              handle_store_access_log be params =
                [(''success'', PBool True),
                 (''data'', PDict [(''id'', PInt log_id),
                                   (''message'', PStr ''Access log stored successfully'')])])"
    by blast
qed

text \<open>
  Two validated requests that give only the required fields, against the example data
  store, whose inserts return the id 7.
\<close>

theorem store_handlers_bind_defaults_witness:
  "error_log_query_params
       (PDict [(''timestamp'', PStr ''2024-05-01 10:00:00''), (''log_level'', PStr ''ERROR''),
               (''error_code'', PStr ''E42''), (''error_message'', PStr ''boom'')])
     = Inr [PStr ''2024-05-01 10:00:00'', PStr ''ERROR'', PNone, PNone, PNone,
            PStr ''E42'', PStr ''boom'', PNone, PNone, PInt 5]
   \<and> handle_store_error_log example_backend
       (PDict [(''timestamp'', PStr ''2024-05-01 10:00:00''), (''log_level'', PStr ''ERROR''),
               (''error_code'', PStr ''E42''), (''error_message'', PStr ''boom'')])
     = [(''success'', PBool True),
        (''data'', PDict [(''id'', PInt 7),
                          (''message'', PStr ''Error log stored successfully'')])]
   \<and> access_log_query_params
       (PDict [(''timestamp'', PStr ''2024-05-01 10:00:00''), (''ip_address'', PStr ''10.0.0.7''),
               (''method'', PStr ''GET''), (''endpoint'', PStr ''/health''),
               (''status_code'', PInt 200)])
     = Inr [PStr ''2024-05-01 10:00:00'', PStr ''10.0.0.7'', PStr ''GET'', PStr ''/health'',
            PNone, PInt 200, PNone, PNone, PNone, PNone, PNone]
   \<and> handle_store_access_log example_backend
       (PDict [(''timestamp'', PStr ''2024-05-01 10:00:00''), (''ip_address'', PStr ''10.0.0.7''),
               (''method'', PStr ''GET''), (''endpoint'', PStr ''/health''),
               (''status_code'', PInt 200)])
     = [(''success'', PBool True),
        (''data'', PDict [(''id'', PInt 7),
                          (''message'', PStr ''Access log stored successfully'')])]"
proof -
  let ?e = "[(''timestamp'', PStr ''2024-05-01 10:00:00''), (''log_level'', PStr ''ERROR''),
             (''error_code'', PStr ''E42''), (''error_message'', PStr ''boom'')]"
  let ?a = "[(''timestamp'', PStr ''2024-05-01 10:00:00''), (''ip_address'', PStr ''10.0.0.7''),
             (''method'', PStr ''GET''), (''endpoint'', PStr ''/health''),
             (''status_code'', PInt 200)]"
  have he: "validate_intent_params (example_lib []) example_cfg (PStr ''store_error_log'')
              (PDict ?e) = Inr (True, None)"
    by code_simp
  have ha: "validate_intent_params (example_lib []) example_cfg (PStr ''store_access_log'')
              (PDict ?a) = Inr (True, None)"
    by code_simp
  have ins: "execute_insert example_backend q ps = Inr 7" for q ps
    by (simp add: example_backend_def)
  from store_handlers_bind_defaults [THEN conjunct1, rule_format, OF he, of example_backend]
  obtain kvs qp where
    e1: "PDict ?e = PDict kvs"
    and e2: "qp = [the (map_of kvs ''timestamp''), the (map_of kvs ''log_level''),
                 field_or kvs ''process_id'' PNone, field_or kvs ''thread_id'' PNone,
                 field_or kvs ''client_ip'' PNone, the (map_of kvs ''error_code''),
                 the (map_of kvs ''error_message''),
                 field_or kvs ''file_path'' PNone, field_or kvs ''line_number'' PNone,
                 field_or kvs ''severity_score'' (PInt 5)]"
    and e3: "error_log_query_params (PDict ?e) = Inr qp"
    and e4: "\<forall>log_id. execute_insert example_backend error_log_insert qp = Inr log_id \<longrightarrow>
              handle_store_error_log example_backend (PDict ?e) =
                [(''success'', PBool True),
                 (''data'', PDict [(''id'', PInt log_id),
                                   (''message'', PStr ''Error log stored successfully'')])]"
    by force
  from e1 have "kvs = ?e" by simp
  with e2 have e5: "qp = [PStr ''2024-05-01 10:00:00'', PStr ''ERROR'', PNone, PNone, PNone,
            PStr ''E42'', PStr ''boom'', PNone, PNone, PInt 5]"
    by (simp add: field_or_def)
  from store_handlers_bind_defaults [THEN conjunct2, rule_format, OF ha, of example_backend]
  obtain kvs' qp' where
    a1: "PDict ?a = PDict kvs'"
    and a2: "qp' = [the (map_of kvs' ''timestamp''), the (map_of kvs' ''ip_address''),
                 the (map_of kvs' ''method''), the (map_of kvs' ''endpoint''),
                 field_or kvs' ''http_version'' PNone, the (map_of kvs' ''status_code''),
                 field_or kvs' ''response_size'' PNone, field_or kvs' ''response_time_ms'' PNone,
                 field_or kvs' ''user_agent'' PNone, field_or kvs' ''department'' PNone,
                 field_or kvs' ''user_id'' PNone]"
    and a3: "access_log_query_params (PDict ?a) = Inr qp'"
    and a4: "\<forall>log_id. execute_insert example_backend access_log_insert qp' = Inr log_id \<longrightarrow>
              handle_store_access_log example_backend (PDict ?a) =
                [(''success'', PBool True),
                 (''data'', PDict [(''id'', PInt log_id),
                                   (''message'', PStr ''Access log stored successfully'')])]"
    by force
  from a1 have "kvs' = ?a" by simp
  with a2 have a5: "qp' = [PStr ''2024-05-01 10:00:00'', PStr ''10.0.0.7'', PStr ''GET'',
            PStr ''/health'', PNone, PInt 200, PNone, PNone, PNone, PNone, PNone]"
    by (simp add: field_or_def)
  from e3 e4 e5 a3 a4 a5 ins show ?thesis by blast
qed

text \<open>
  C3 as stated fails: a validated \<^verbatim>\<open>store_error_log\<close> request without
  \<^verbatim>\<open>severity_score\<close> binds 5 in the last position, not \<^verbatim>\<open>None\<close>.
\<close>

theorem omitted_severity_score_is_bound_as_5:
  "validate_intent_params (example_lib []) example_cfg (PStr ''store_error_log'')
       (PDict [(''timestamp'', PStr ''2024-05-01 10:00:00''), (''log_level'', PStr ''ERROR''),
               (''error_code'', PStr ''E42''), (''error_message'', PStr ''boom'')])
     = Inr (True, None)
   \<and> map_of [(''timestamp'', PStr ''2024-05-01 10:00:00''), (''log_level'', PStr ''ERROR''),
              (''error_code'', PStr ''E42''), (''error_message'', PStr ''boom'')]
        ''severity_score'' = None
   \<and> error_log_query_params
       (PDict [(''timestamp'', PStr ''2024-05-01 10:00:00''), (''log_level'', PStr ''ERROR''),
               (''error_code'', PStr ''E42''), (''error_message'', PStr ''boom'')])
     = Inr [PStr ''2024-05-01 10:00:00'', PStr ''ERROR'', PNone, PNone, PNone,
            PStr ''E42'', PStr ''boom'', PNone, PNone, PInt 5]"
  by code_simp

section \<open>C8: redaction in the logger\<close>














section \<open>The result of the credential comparison\<close>

text \<open>
  \<^verbatim>\<open>constant_time_compare\<close> returns whether its two strings are equal, and the
  loop over the configured keys whether the key is one of them. How long the comparison
  runs is decided inside \<^verbatim>\<open>hmac.compare_digest\<close> and is not part of this model.
\<close>

lemma utf8_char_cases:
  "(of_char c < (128 :: nat) \<and> utf8_char c = [of_char c])
   \<or> (128 \<le> (of_char c :: nat)
       \<and> utf8_char c = [192 + of_char c div 64, 128 + of_char c mod 64])"
  by (simp add: utf8_char_def Let_def)

lemma utf8_char_prefix_free:
  assumes "utf8_char c @ A = utf8_char d @ B"
  shows "c = d \<and> A = B"
proof -
  let ?n = "of_char c :: nat" and ?m = "of_char d :: nat"
  have dm: "?n = ?m" if "?n div 64 = ?m div 64" and "?n mod 64 = ?m mod 64"
  proof -
    have "?n = 64 * (?n div 64) + ?n mod 64" by simp
    also have "\<dots> = 64 * (?m div 64) + ?m mod 64" using that by simp
    also have "\<dots> = ?m" by simp
    finally show ?thesis .
  qed
  have "?n = ?m \<and> A = B"
  proof -
    consider (ss) "?n < 128" "utf8_char c = [?n]" "?m < 128" "utf8_char d = [?m]"
      | (sl) "?n < 128" "utf8_char c = [?n]" "128 \<le> ?m"
             "utf8_char d = [192 + ?m div 64, 128 + ?m mod 64]"
      | (ls) "128 \<le> ?n" "utf8_char c = [192 + ?n div 64, 128 + ?n mod 64]"
             "?m < 128" "utf8_char d = [?m]"
      | (ll) "128 \<le> ?n" "utf8_char c = [192 + ?n div 64, 128 + ?n mod 64]"
             "128 \<le> ?m" "utf8_char d = [192 + ?m div 64, 128 + ?m mod 64]"
      using utf8_char_cases [of c] utf8_char_cases [of d] by fastforce
    then show ?thesis
    proof cases
      case ss
      with assms show ?thesis by simp
    next
      case sl
      with assms have "?n = 192 + ?m div 64" by simp
      with sl(1) show ?thesis by simp
    next
      case ls
      with assms have "192 + ?n div 64 = ?m" by simp
      with ls(3) show ?thesis by simp
    next
      case ll
      with assms have "?n div 64 = ?m div 64" "?n mod 64 = ?m mod 64" "A = B" by simp_all
      with dm show ?thesis by simp
    qed
  qed
  then show ?thesis by simp
qed

lemma utf8_char_nonempty: "utf8_char c \<noteq> []"
  using utf8_char_cases [of c] by auto

lemma encode_utf8_Cons: "encode_utf8 (c # s) = utf8_char c @ encode_utf8 s"
  by (simp add: encode_utf8_def)

lemma encode_utf8_inj: "encode_utf8 a = encode_utf8 b \<Longrightarrow> a = b"
proof (induction a arbitrary: b)
  case Nil
  show ?case
  proof (cases b)
    case (Cons d b')
    with Nil utf8_char_nonempty [of d] show ?thesis
      by (simp add: encode_utf8_Cons) (simp add: encode_utf8_def)
  qed simp
next
  case (Cons c a)
  show ?case
  proof (cases b)
    case Nil
    with Cons.prems utf8_char_nonempty [of c] show ?thesis
      by (simp add: encode_utf8_Cons) (simp add: encode_utf8_def)
  next
    case (Cons d b')
    with Cons.prems have "utf8_char c @ encode_utf8 a = utf8_char d @ encode_utf8 b'"
      by (simp add: encode_utf8_Cons)
    from utf8_char_prefix_free [OF this] Cons.IH [of b'] Cons show ?thesis
      by simp
  qed
qed

lemma constant_time_compare_iff: "constant_time_compare a b \<longleftrightarrow> a = b"
  using encode_utf8_inj [of a b]
  by (auto simp: constant_time_compare_def compare_digest_def)

lemma match_any_key_iff: "match_any_key api_key valid_keys \<longleftrightarrow> api_key \<in> set valid_keys"
  by (induction valid_keys) (auto simp: constant_time_compare_iff)

end
